theory Spec2Isabelle
  imports Main "HOL-Library.AList"
begin

section \<open>The custom element boilerplate setup script\<close>

text \<open>
  The repository is one Node.js script, \<^verbatim>\<open>main.js\<close>, kept in three revisions. The
  embedding follows the latest one (the revision with the \<^verbatim>\<open>fileSuffix\<close> key and
  with separate \<^verbatim>\<open>filename\<close> and \<^verbatim>\<open>contents\<close> replacement maps). The revision
  stored as \<^verbatim>\<open>src/main.js\<close> is older: it has one replacement map, no \<^verbatim>\<open>fileSuffix\<close>,
  an \<^verbatim>\<open>escapeRegex\<close> without \<^verbatim>\<open><\<close> and \<^verbatim>\<open>>\<close>, and a loop that renames a file before it
  rewrites its contents at the new path. What differs there is embedded too, under
  names that end in \<open>_srcMain\<close>, and the properties say which revision they hold for.

  Conventions of the embedding:
  \<^item> a JavaScript string is a \<^typ>\<open>string\<close>, one \<^typ>\<open>char\<close> per code unit. Case
    conversion and white space are modelled on the ASCII range; a code unit outside
    it is left alone by \<^verbatim>\<open>toUpperCase\<close>/\<^verbatim>\<open>toLowerCase\<close> and is not white space;
  \<^item> a thrown exception is the \<open>Inl\<close> branch of \<open>error + 'a\<close>;
  \<^item> a \<^verbatim>\<open>Map\<close> (and the entries of an object literal) is the list of its entries
    in insertion order; \<^verbatim>\<open>Map.set\<close> is \<^const>\<open>AList.update\<close>, which overwrites in
    place and appends a new key at the end;
  \<^item> the file system is a value passed through every operation, together with the
    list of effectful calls made so far;
  \<^item> what the script prints (\<^verbatim>\<open>console.log\<close>, \<^verbatim>\<open>print\<close>) is left out, and the name
    of the repository, the line typed at the prompt and the working directory are
    parameters.
\<close>

subsection \<open>Errors\<close>

datatype error =
    TypeError           \<comment> \<open>a method called on \<^verbatim>\<open>undefined\<close>\<close>
  | ENOENT              \<comment> \<open>a file operation on a path that does not exist\<close>
  | ENOTDIR             \<comment> \<open>a regular file renamed to a path that ends with the separator\<close>
  | RegExpOperator      \<comment> \<open>a pattern that the RegExp engine would not read as a literal\<close>

definition bindE :: "error + 'a \<Rightarrow> ('a \<Rightarrow> error + 'b) \<Rightarrow> error + 'b" where
  "bindE r f = (case r of Inl e \<Rightarrow> Inl e | Inr x \<Rightarrow> f x)"

fun mapE :: "('a \<Rightarrow> error + 'b) \<Rightarrow> 'a list \<Rightarrow> error + 'b list" where
  "mapE f [] = Inr []"
| "mapE f (x # xs) = bindE (f x) (\<lambda>y. bindE (mapE f xs) (\<lambda>ys. Inr (y # ys)))"

subsection \<open>Strings of the runtime\<close>

abbreviation backslash :: char where "backslash \<equiv> CHR 0x5C"
abbreviation dquote :: char where "dquote \<equiv> CHR 0x22"
abbreviation squote :: char where "squote \<equiv> CHR 0x27"
abbreviation backtick :: char where "backtick \<equiv> CHR 0x60"

definition isUpperAZ :: "char \<Rightarrow> bool" where
  "isUpperAZ c = (65 \<le> (of_char c :: nat) \<and> (of_char c :: nat) \<le> 90)"

definition isLowerAZ :: "char \<Rightarrow> bool" where
  "isLowerAZ c = (97 \<le> (of_char c :: nat) \<and> (of_char c :: nat) \<le> 122)"

definition isDigit :: "char \<Rightarrow> bool" where
  "isDigit c = (48 \<le> (of_char c :: nat) \<and> (of_char c :: nat) \<le> 57)"

definition toLowerCaseChar :: "char \<Rightarrow> char" where
  "toLowerCaseChar c = (if isUpperAZ c then char_of (of_char c + (32::nat)) else c)"

definition toUpperCaseChar :: "char \<Rightarrow> char" where
  "toUpperCaseChar c = (if isLowerAZ c then char_of (of_char c - (32::nat)) else c)"

definition toLowerCase :: "string \<Rightarrow> string" where
  "toLowerCase text = map toLowerCaseChar text"

definition toUpperCase :: "string \<Rightarrow> string" where
  "toUpperCase text = map toUpperCaseChar text"

text \<open>\<^verbatim>\<open>text[0]\<close> is \<^verbatim>\<open>undefined\<close> on the empty string, and a method call on
  \<^verbatim>\<open>undefined\<close> throws.\<close>

definition index0 :: "string \<Rightarrow> string option" where
  "index0 text = (case text of [] \<Rightarrow> None | c # _ \<Rightarrow> Some [c])"

definition toUpperCaseOf :: "string option \<Rightarrow> error + string" where
  "toUpperCaseOf x = (case x of None \<Rightarrow> Inl TypeError | Some s \<Rightarrow> Inr (toUpperCase s))"

definition toLowerCaseOf :: "string option \<Rightarrow> error + string" where
  "toLowerCaseOf x = (case x of None \<Rightarrow> Inl TypeError | Some s \<Rightarrow> Inr (toLowerCase s))"

definition substring :: "nat \<Rightarrow> string \<Rightarrow> string" where
  "substring n text = drop n text"

text \<open>\<^verbatim>\<open>text.slice(0, -n)\<close> for a length \<open>n\<close>: the end index \<^verbatim>\<open>-0\<close> is \<^verbatim>\<open>0\<close>, so the
  slice is empty when \<open>n = 0\<close>; otherwise the end counts from the back and stops at
  the start of the string.\<close>

definition sliceOff :: "string \<Rightarrow> nat \<Rightarrow> string" where
  "sliceOff text n = (if n = 0 then [] else take (length text - n) text)"

definition endsWith :: "string \<Rightarrow> string \<Rightarrow> bool" where
  "endsWith text suffix =
     (length suffix \<le> length text \<and> drop (length text - length suffix) text = suffix)"

definition isWhiteSpace :: "char \<Rightarrow> bool" where
  "isWhiteSpace c = (c \<in> set [CHR 0x09, CHR 0x0A, CHR 0x0B, CHR 0x0C, CHR 0x0D, CHR 0x20])"

definition trim :: "string \<Rightarrow> string" where
  "trim text = rev (dropWhile isWhiteSpace (rev (dropWhile isWhiteSpace text)))"

text \<open>\<^verbatim>\<open>text.split(sep)\<close> for a separator of one character: the empty string splits
  into one empty segment.\<close>

fun split :: "char \<Rightarrow> string \<Rightarrow> string list" where
  "split sep [] = [[]]"
| "split sep (c # cs) =
     (if c = sep then [] # split sep cs
      else (case split sep cs of [] \<Rightarrow> [[c]] | w # ws \<Rightarrow> (c # w) # ws))"

definition join :: "string list \<Rightarrow> string" where
  "join ws = concat ws"

subsection \<open>Text manipulation\<close>

definition ucFirst :: "string \<Rightarrow> error + string" where
  "ucFirst text =
     (if text = [] then Inr text
      else bindE (toUpperCaseOf (index0 text)) (\<lambda>u. Inr (u @ substring 1 text)))"

definition lcFirst :: "string \<Rightarrow> error + string" where
  "lcFirst text =
     (if text = [] then Inr text
      else bindE (toLowerCaseOf (index0 text)) (\<lambda>l. Inr (l @ substring 1 text)))"

text \<open>The character class of \<^verbatim>\<open>escapeRegex\<close>:
  \<^verbatim>\<open>/ - \ ^ $ * + ? . ( ) | [ ] { } < >\<close>. Every match is replaced by a backslash
  followed by the match (\<^verbatim>\<open>'\\$&'\<close>).\<close>

definition escapedCharacters :: string where
  "escapedCharacters = ''/-'' @ [backslash] @ ''^$*+?.()|[]{}<>''"

definition escapeRegex :: "string \<Rightarrow> string" where
  "escapeRegex text =
     (if text = [] then text
      else concat (map (\<lambda>c. if c \<in> set escapedCharacters then [backslash, c] else [c]) text))"

definition trimSuffix :: "string \<Rightarrow> string \<Rightarrow> string" where
  "trimSuffix text suffix =
     (if text = [] then text
      else if endsWith text suffix then sliceOff text (length suffix) else text)"

subsection \<open>Naming keys\<close>

text \<open>The key \<^verbatim>\<open>file\<close> is the field \<open>fileKey\<close>: \<open>file\<close> is a reserved word here.\<close>

record namingKeys =
  fileKey :: string
  fileSuffix :: string
  tag :: string
  tagName :: string
  className :: string
  suffix :: string

definition fromCustomElementKey :: namingKeys where
  "fromCustomElementKey =
     \<lparr> fileKey = ''custom-element'', fileSuffix = ''element'', tag = ''custom-element'',
       tagName = ''CUSTOM-ELEMENT'', className = ''CustomElement'', suffix = ''Element'' \<rparr>"

text \<open>\<^verbatim>\<open>Object.entries\<close> of a naming key object, in the order of its literal.\<close>

definition entries :: "namingKeys \<Rightarrow> (string \<times> string) list" where
  "entries k =
     [(''file'', fileKey k), (''fileSuffix'', fileSuffix k), (''tag'', tag k),
      (''tagName'', tagName k), (''className'', className k), (''suffix'', suffix k)]"

definition calculateCustomElementNameFromRepositoryName :: "string \<Rightarrow> error + string" where
  "calculateCustomElementNameFromRepositoryName repositoryName =
     bindE (mapE (\<lambda>word. ucFirst word) (split CHR ''-'' repositoryName)) (\<lambda>ws. Inr (join ws))"

text \<open>\<^verbatim>\<open>text.replace(/[A-Z]{1}/g, f)\<close>: every code unit from \<^verbatim>\<open>A\<close> to \<^verbatim>\<open>Z\<close> is a match of
  its own, replaced by what the callback returns for it.\<close>

definition replaceEachUpperAZ :: "(string \<Rightarrow> error + string) \<Rightarrow> string \<Rightarrow> error + string" where
  "replaceEachUpperAZ f text =
     bindE (mapE (\<lambda>c. if isUpperAZ c then f [c] else Inr [c]) text) (\<lambda>parts. Inr (concat parts))"

definition dashCase :: "string \<Rightarrow> error + string" where
  "dashCase targetClassName =
     bindE (lcFirst targetClassName)
       (replaceEachUpperAZ
          (\<lambda>match. bindE (toLowerCaseOf (index0 match)) (\<lambda>l. Inr (CHR ''-'' # l))))"

definition calculateTargetCustomElementKeysByClassName :: "string \<Rightarrow> error + namingKeys" where
  "calculateTargetCustomElementKeysByClassName targetClassName =
     bindE (dashCase targetClassName) (\<lambda>d.
     bindE (lcFirst (suffix fromCustomElementKey)) (\<lambda>fs.
       Inr \<lparr> fileKey = d, fileSuffix = fs, tag = d, tagName = toUpperCase d,
             className = targetClassName, suffix = suffix fromCustomElementKey \<rparr>))"

text \<open>The class name the script settles on, from the line typed at the prompt and
  the candidate: \<^verbatim>\<open>trimSuffix(ucFirst(promptAnswer.trim()) || candidate, suffix)\<close>. The
  empty string is the only falsy string.\<close>

definition answer :: "string \<Rightarrow> string \<Rightarrow> error + string" where
  "answer promptAnswer customElementNameCandidate =
     bindE (ucFirst (trim promptAnswer)) (\<lambda>u.
       Inr (trimSuffix (if u = [] then customElementNameCandidate else u)
              (suffix fromCustomElementKey)))"

subsection \<open>The RegExp engine, as far as the script uses it\<close>

text \<open>
  The script builds each pattern with \<^verbatim>\<open>new RegExp(escapeRegex(key), 'g')\<close>. The
  engine belongs to the runtime; the embedding reads a pattern source (without the
  \<^verbatim>\<open>u\<close> flag) as far as it is a sequence of characters that stand for themselves:
  \<^item> a character other than the syntax characters
    \<^verbatim>\<open>^ $ \ . * + ? ( ) [ ] { } |\<close> matches itself;
  \<^item> a backslash followed by a character that is not a letter, a digit or \<^verbatim>\<open>_\<close> is
    an identity escape and matches that character;
  \<^item> everything else (a bare syntax character, a backslash followed by a letter, a
    digit or \<^verbatim>\<open>_\<close>, a backslash at the end) is an operator, a class, a back reference
    or a syntax error.
\<close>

datatype token =
    Character char     \<comment> \<open>matches exactly this character\<close>
  | Operator           \<comment> \<open>anything that is not a literal character\<close>

definition syntaxCharacters :: string where
  "syntaxCharacters = ''^$'' @ [backslash] @ ''.*+?()[]{}|''"

definition isIdentifierPart :: "char \<Rightarrow> bool" where
  "isIdentifierPart c = (isUpperAZ c \<or> isLowerAZ c \<or> isDigit c \<or> c = CHR ''_'')"

fun regexTokens :: "string \<Rightarrow> token list" where
  "regexTokens [] = []"
| "regexTokens [c] = (if c \<in> set syntaxCharacters then [Operator] else [Character c])"
| "regexTokens (c # d # rest) =
     (if c = backslash then
        (if isIdentifierPart d then Operator else Character d) # regexTokens rest
      else if c \<in> set syntaxCharacters then Operator # regexTokens (d # rest)
      else Character c # regexTokens (d # rest))"

fun literalOf :: "token list \<Rightarrow> string option" where
  "literalOf [] = Some []"
| "literalOf (Operator # ts) = None"
| "literalOf (Character c # ts) = (case literalOf ts of None \<Rightarrow> None | Some cs \<Rightarrow> Some (c # cs))"

text \<open>A compiled global pattern of the literal fragment is the string it matches.\<close>

definition newRegExp :: "string \<Rightarrow> error + string" where
  "newRegExp source =
     (case literalOf (regexTokens source) of None \<Rightarrow> Inl RegExpOperator | Some lit \<Rightarrow> Inr lit)"

text \<open>
  The replacement text of \<^verbatim>\<open>String.prototype.replace\<close> when the replacement is a
  string and the pattern has no capture group: \<^verbatim>\<open>$$\<close> is a dollar sign, \<^verbatim>\<open>$&\<close> the
  match, \<^verbatim>\<open>$`\<close> the text before the match and \<^verbatim>\<open>$'\<close> the text after it; every other
  character, a dollar sign followed by anything else included, stands for itself.
\<close>

fun getSubstitution :: "string \<Rightarrow> string \<Rightarrow> string \<Rightarrow> string \<Rightarrow> string" where
  "getSubstitution matched preceding following [] = []"
| "getSubstitution matched preceding following [c] = [c]"
| "getSubstitution matched preceding following (c # d # rest) =
     (if c = CHR ''$'' \<and> d = CHR ''$'' then CHR ''$'' # getSubstitution matched preceding following rest
      else if c = CHR ''$'' \<and> d = CHR ''&'' then matched @ getSubstitution matched preceding following rest
      else if c = CHR ''$'' \<and> d = backtick then preceding @ getSubstitution matched preceding following rest
      else if c = CHR ''$'' \<and> d = squote then following @ getSubstitution matched preceding following rest
      else c # getSubstitution matched preceding following (d # rest))"

text \<open>
  \<^verbatim>\<open>text.replace(regex, value)\<close> for a global literal pattern: the text is scanned
  from the left; where the pattern starts, the replacement text is emitted and the
  scan goes on behind the match; elsewhere one character is copied. The empty
  pattern matches before every character and at the end. \<open>preceding\<close> is the part of the
  text already scanned.
\<close>

function replaceFrom :: "string \<Rightarrow> string \<Rightarrow> string \<Rightarrow> string \<Rightarrow> string" where
  "replaceFrom lit value preceding [] =
     (if lit = [] then getSubstitution [] preceding [] value else [])"
| "replaceFrom lit value preceding (c # cs) =
     (if lit = [] then
        getSubstitution [] preceding (c # cs) value @ c # replaceFrom lit value (preceding @ [c]) cs
      else if take (length lit) (c # cs) = lit then
        getSubstitution lit preceding (drop (length lit) (c # cs)) value
          @ replaceFrom lit value (preceding @ lit) (drop (length lit) (c # cs))
      else c # replaceFrom lit value (preceding @ [c]) cs)"
  by pat_completeness auto
termination
  by (relation "measure (\<lambda>(lit, value, preceding, rest). length rest)") auto

definition replace :: "string \<Rightarrow> string \<Rightarrow> string \<Rightarrow> string" where
  "replace text regex value = replaceFrom regex value [] text"

subsection \<open>Replacement maps\<close>

fun setMapEntriesByPrefixedObjectKeys ::
  "(string \<times> string) list \<Rightarrow> string \<Rightarrow> (string \<times> string) list \<Rightarrow> (string \<times> string) list" where
  "setMapEntriesByPrefixedObjectKeys replacementMap prefix [] = replacementMap"
| "setMapEntriesByPrefixedObjectKeys replacementMap prefix ((key, value) # keyValue) =
     setMapEntriesByPrefixedObjectKeys
       (AList.update (''{'' @ prefix @ '':'' @ key @ ''}'') value replacementMap) prefix keyValue"

fun replaceStringByMapParts :: "string \<Rightarrow> (string \<times> string) list \<Rightarrow> error + string" where
  "replaceStringByMapParts templateString [] = Inr templateString"
| "replaceStringByMapParts templateString ((key, value) # replacementMap) =
     bindE (newRegExp (escapeRegex key)) (\<lambda>regexKey.
       replaceStringByMapParts (replace templateString regexKey value) replacementMap)"

record replacementMaps =
  filename :: "(string \<times> string) list"
  contents :: "(string \<times> string) list"

definition filenameTemplates :: "(string \<times> string) list" where
  "filenameTemplates = [(''{from:file}'', ''{to:file}-{to:fileSuffix}'')]"

definition contentsTemplates :: "(string \<times> string) list" where
  "contentsTemplates =
     [(''<{from:tag}>'', ''<{to:tag}>''),
      (''</{from:tag}>'', ''</{to:tag}>''),
      (dquote # ''{from:tag}'' @ [dquote], dquote # ''{to:tag}'' @ [dquote]),
      (squote # ''{from:tag}'' @ [squote], squote # ''{to:tag}'' @ [squote]),
      (''{from:tag} demo'', ''{to:tag} demo''),
      (''src/{from:tag}'' @ [squote], ''src/{to:tag}-{to:fileSuffix}'' @ [squote]),
      (''src/{from:tag}.ts'', ''src/{to:tag}-{to:fileSuffix}.ts''),
      (''{from:tagName}'', ''{to:tagName}''),
      (''{from:className}{from:suffix}'', ''{to:className}{to:suffix}''),
      (dquote # ''repository'' @ [dquote] @ '': '' @ [dquote] @ ''github/{from:tag}-boilerplate'' @ [dquote],
       dquote # ''repository'' @ [dquote] @ '': '' @ [dquote] @ ''github/{to:tag}-{to:fileSuffix}'' @ [dquote]),
      (dquote # ''name'' @ [dquote] @ '': '' @ [dquote] @ ''@github/{from:tag}-{from:fileSuffix}'' @ [dquote],
       dquote # ''name'' @ [dquote] @ '': '' @ [dquote] @ ''{to:tag}-{to:fileSuffix}'' @ [dquote]),
      (dquote # ''main'' @ [dquote] @ '': '' @ [dquote] @ ''dist/{from:tag}.js'' @ [dquote],
       dquote # ''main'' @ [dquote] @ '': '' @ [dquote] @ ''dist/{to:tag}-{to:fileSuffix}.js'' @ [dquote]),
      (dquote # ''module'' @ [dquote] @ '': '' @ [dquote] @ ''dist/{from:tag}.js'' @ [dquote],
       dquote # ''module'' @ [dquote] @ '': '' @ [dquote] @ ''dist/{to:tag}-{to:fileSuffix}.js'' @ [dquote]),
      (dquote # ''types'' @ [dquote] @ '': '' @ [dquote] @ ''dist/{from:tag}s.d.ts'' @ [dquote],
       dquote # ''types'' @ [dquote] @ '': '' @ [dquote] @ ''dist/{to:tag}-{to:fileSuffix}.d.ts'' @ [dquote])]"

definition replacementTemplateMap :: replacementMaps where
  "replacementTemplateMap = \<lparr> filename = filenameTemplates, contents = contentsTemplates \<rparr>"

text \<open>The inner loop of \<^verbatim>\<open>calculateReplacementMap\<close>: both sides of every template
  are resolved against the prefixed keys and set in the map being built.\<close>

fun resolveTemplates ::
  "(string \<times> string) list \<Rightarrow> (string \<times> string) list \<Rightarrow> (string \<times> string) list
     \<Rightarrow> error + (string \<times> string) list" where
  "resolveTemplates prefixedKeyMap [] m = Inr m"
| "resolveTemplates prefixedKeyMap ((key, value) # templates) m =
     bindE (replaceStringByMapParts key prefixedKeyMap) (\<lambda>k.
     bindE (replaceStringByMapParts value prefixedKeyMap) (\<lambda>v.
       resolveTemplates prefixedKeyMap templates (AList.update k v m)))"

definition calculateReplacementMap :: "namingKeys \<Rightarrow> namingKeys \<Rightarrow> error + replacementMaps" where
  "calculateReplacementMap fromKeys toKeys =
     (let prefixedKeyMap =
            setMapEntriesByPrefixedObjectKeys
              (setMapEntriesByPrefixedObjectKeys [] ''from'' (entries fromKeys))
              ''to'' (entries toKeys)
      in bindE (resolveTemplates prefixedKeyMap (filename replacementTemplateMap) []) (\<lambda>f.
         bindE (resolveTemplates prefixedKeyMap (contents replacementTemplateMap) []) (\<lambda>c.
           Inr \<lparr> filename = f, contents = c \<rparr>)))"

subsection \<open>Paths of the runtime (POSIX)\<close>

text \<open>
  \<^verbatim>\<open>path.sep\<close>, \<^verbatim>\<open>path.basename\<close>, \<^verbatim>\<open>path.extname\<close>, \<^verbatim>\<open>path.dirname\<close> and
  \<^verbatim>\<open>path.normalize\<close> belong to the runtime; they are embedded as Node.js defines
  them on POSIX systems, where the script is meant to run.
\<close>

abbreviation sep :: char where "sep \<equiv> CHR ''/''"

text \<open>The last segment of the path, trailing separators ignored.\<close>

definition basename :: "string \<Rightarrow> string" where
  "basename path =
     rev (takeWhile (\<lambda>c. c \<noteq> sep) (dropWhile (\<lambda>c. c = sep) (rev path)))"

text \<open>
  The extension of the last segment: from its last dot to its end. There is none if
  the segment has no dot, if its only dot is its first character, or if the segment
  is \<^verbatim>\<open>..\<close>.
\<close>

definition extname :: "string \<Rightarrow> string" where
  "extname path =
     (let name = basename path;
          afterDot = rev (takeWhile (\<lambda>c. c \<noteq> CHR ''.'') (rev name));
          startDot = length name - length afterDot - 1
      in if CHR ''.'' \<notin> set name \<or> startDot = 0 \<or> name = ''..'' then []
         else drop startDot name)"

text \<open>
  The path without its last segment. The scan runs from the end down to index 1: it
  skips trailing separators, then the last segment, and cuts at the separator in
  front of it. With nothing to cut the result is the root or \<^verbatim>\<open>.\<close>.
\<close>

definition dirname :: "string \<Rightarrow> string" where
  "dirname path =
     (if path = [] then ''.''
      else
        (let hasRoot = (hd path = sep);
             front = dropWhile (\<lambda>c. c \<noteq> sep) (dropWhile (\<lambda>c. c = sep) (rev (tl path)));
             end = length front
         in if front = [] then (if hasRoot then ''/'' else ''.'')
            else if hasRoot \<and> end = 1 then ''//''
            else take end path))"

text \<open>
  \<^verbatim>\<open>normalizeString\<close>: the segments are read from the left; empty segments and \<^verbatim>\<open>.\<close>
  are dropped, \<^verbatim>\<open>..\<close> removes the segment before it, or stays when there is none to
  remove and the path is relative. \<open>kept\<close> holds the segments kept so far, last first.
\<close>

fun normalizeSegments :: "bool \<Rightarrow> string list \<Rightarrow> string list \<Rightarrow> string list" where
  "normalizeSegments allowAboveRoot kept [] = rev kept"
| "normalizeSegments allowAboveRoot kept (s # segs) =
     (if s = [] \<or> s = ''.'' then normalizeSegments allowAboveRoot kept segs
      else if s = ''..'' then
        (case kept of
           [] \<Rightarrow> normalizeSegments allowAboveRoot (if allowAboveRoot then [''..''] else []) segs
         | k # ks \<Rightarrow>
             (if k = ''..'' then
                normalizeSegments allowAboveRoot (if allowAboveRoot then ''..'' # kept else kept) segs
              else normalizeSegments allowAboveRoot ks segs))
      else normalizeSegments allowAboveRoot (s # kept) segs)"

fun joinWith :: "char \<Rightarrow> string list \<Rightarrow> string" where
  "joinWith c [] = []"
| "joinWith c [w] = w"
| "joinWith c (w # v # ws) = w @ c # joinWith c (v # ws)"

definition normalize :: "string \<Rightarrow> string" where
  "normalize path =
     (if path = [] then ''.''
      else
        (let isAbsolute = (hd path = sep);
             trailingSeparator = (last path = sep);
             p = joinWith sep (normalizeSegments (\<not> isAbsolute) [] (split sep path))
         in if p = [] then (if isAbsolute then ''/'' else if trailingSeparator then ''./'' else ''.'')
            else (if isAbsolute then ''/'' else []) @ p @ (if trailingSeparator then ''/'' else [])))"

definition getFileFullPath :: "string \<Rightarrow> string \<Rightarrow> string" where
  "getFileFullPath cwd relativePath = normalize (cwd @ [sep] @ relativePath)"

definition calculateTargetFileFullPath :: "string \<Rightarrow> (string \<times> string) list \<Rightarrow> error + string" where
  "calculateTargetFileFullPath fromFullPath replacementMap =
     (let directory = dirname fromFullPath;
          basename = basename fromFullPath;
          extension = extname basename;
          fileName = sliceOff basename (length extension)
      in bindE (replaceStringByMapParts fileName replacementMap) (\<lambda>fileNameReplacement.
           Inr (directory @ [sep] @ fileNameReplacement @ extension)))"

subsection \<open>The file system\<close>

text \<open>
  A file system holds the regular files by path, with their contents, and the log of
  the calls that read or change it. A read, a truncation or a rename of a path that
  does not exist fails with \<open>ENOENT\<close>, and a rename to a path that ends with the
  separator fails with \<open>ENOTDIR\<close>, since only a directory can have such a name; other
  failures of the operating system (permissions, missing directories, full disks) are
  outside the embedding.
\<close>

datatype fsCall =
    ReadFile string
  | Truncate string
  | WriteFile string string
  | Rename string string

record fileSystem =
  files :: "(string \<times> string) list"
  calls :: "fsCall list"

definition existsSync :: "string \<Rightarrow> fileSystem \<Rightarrow> bool" where
  "existsSync path fs = (map_of (files fs) path \<noteq> None)"

definition fsp_readFile :: "string \<Rightarrow> fileSystem \<Rightarrow> error + (string \<times> fileSystem)" where
  "fsp_readFile path fs =
     (case map_of (files fs) path of
        None \<Rightarrow> Inl ENOENT
      | Some text \<Rightarrow> Inr (text, fs\<lparr>calls := calls fs @ [ReadFile path]\<rparr>))"

definition fsp_truncate :: "string \<Rightarrow> fileSystem \<Rightarrow> error + fileSystem" where
  "fsp_truncate path fs =
     (case map_of (files fs) path of
        None \<Rightarrow> Inl ENOENT
      | Some text \<Rightarrow>
          Inr (fs\<lparr>files := AList.update path [] (files fs), calls := calls fs @ [Truncate path]\<rparr>))"

definition fsp_writeFile :: "string \<Rightarrow> string \<Rightarrow> fileSystem \<Rightarrow> error + fileSystem" where
  "fsp_writeFile path text fs =
     Inr (fs\<lparr>files := AList.update path text (files fs),
              calls := calls fs @ [WriteFile path text]\<rparr>)"

definition fsp_rename :: "string \<Rightarrow> string \<Rightarrow> fileSystem \<Rightarrow> error + fileSystem" where
  "fsp_rename oldPath newPath fs =
     (case map_of (files fs) oldPath of
        None \<Rightarrow> Inl ENOENT
      | Some text \<Rightarrow>
          if newPath \<noteq> [] \<and> last newPath = sep then Inl ENOTDIR
          else
            Inr (fs\<lparr>files := (if oldPath = newPath then files fs
                                else AList.update newPath text (AList.delete oldPath (files fs))),
                     calls := calls fs @ [Rename oldPath newPath]\<rparr>))"

subsection \<open>Updating the files\<close>

definition replaceFileName :: "string \<Rightarrow> string \<Rightarrow> fileSystem \<Rightarrow> error + fileSystem" where
  "replaceFileName fromFullPath targetFullPath fs =
     (if \<not> existsSync fromFullPath fs then Inr fs
      else fsp_rename fromFullPath targetFullPath fs)"

definition replaceFileContents ::
  "string \<Rightarrow> (string \<times> string) list \<Rightarrow> fileSystem \<Rightarrow> error + fileSystem" where
  "replaceFileContents fileFullPath replacementMap fs =
     (if \<not> existsSync fileFullPath fs then Inr fs
      else
        bindE (fsp_readFile fileFullPath fs) (\<lambda>(fileContent, fs1).
        bindE (replaceStringByMapParts fileContent replacementMap) (\<lambda>updatedFileContent.
        bindE (fsp_truncate fileFullPath fs1) (\<lambda>fs2.
          fsp_writeFile fileFullPath updatedFileContent fs2))))"

datatype substitutionEnum = Filename | Contents

definition filesToUpdate :: "(string \<times> substitutionEnum list) list" where
  "filesToUpdate =
     [(''custom-elements.json'', [Contents]),
      (''examples/index.html'', [Contents]),
      (''src/custom-element.ts'', [Filename, Contents]),
      (''test/test.ts'', [Contents]),
      (''vscode.html-custom-data.json'', [Contents]),
      (''.eslintrc.json'', [Contents]),
      (''package.json'', [Contents])]"

text \<open>The body of the loop over the manifest, for one entry.\<close>

definition updateEntry ::
  "string \<Rightarrow> replacementMaps \<Rightarrow> string \<times> substitutionEnum list \<Rightarrow> fileSystem
     \<Rightarrow> error + fileSystem" where
  "updateEntry cwd replacementMap entry fs =
     (let fileRelativePath = fst entry; flags = snd entry;
          fromFileFullPath = getFileFullPath cwd fileRelativePath
      in bindE (if Contents \<in> set flags
                then replaceFileContents fromFileFullPath (contents replacementMap) fs
                else Inr fs) (\<lambda>fs1.
           if Filename \<notin> set flags then Inr fs1
           else
             bindE (calculateTargetFileFullPath fromFileFullPath (filename replacementMap))
               (\<lambda>targetFullPath. replaceFileName fromFileFullPath targetFullPath fs1)))"

fun updateFiles ::
  "string \<Rightarrow> replacementMaps \<Rightarrow> (string \<times> substitutionEnum list) list \<Rightarrow> fileSystem
     \<Rightarrow> error + fileSystem" where
  "updateFiles cwd replacementMap [] fs = Inr fs"
| "updateFiles cwd replacementMap (entry # manifest) fs =
     bindE (updateEntry cwd replacementMap entry fs) (updateFiles cwd replacementMap manifest)"

text \<open>The script from the prompt on: \<open>repositoryName\<close> is what
  \<^verbatim>\<open>tryFetchGitRepositoryName\<close> returned and \<open>promptAnswer\<close> the line typed.\<close>

definition main :: "string \<Rightarrow> string \<Rightarrow> string \<Rightarrow> fileSystem \<Rightarrow> error + fileSystem" where
  "main cwd repositoryName promptAnswer fs =
     bindE (calculateCustomElementNameFromRepositoryName repositoryName)
       (\<lambda>customElementNameCandidate.
     bindE (answer promptAnswer customElementNameCandidate) (\<lambda>a.
     bindE (calculateTargetCustomElementKeysByClassName a) (\<lambda>toCustomElementKeys.
     bindE (calculateReplacementMap fromCustomElementKey toCustomElementKeys) (\<lambda>replacementMap.
       updateFiles cwd replacementMap filesToUpdate fs))))"

subsection \<open>The older revision \<^verbatim>\<open>src/main.js\<close>\<close>

text \<open>
  Where the revision stored as \<^verbatim>\<open>src/main.js\<close> differs in the functions above:
  the naming keys have no \<^verbatim>\<open>fileSuffix\<close>; \<^verbatim>\<open>escapeRegex\<close> has no guard and its class
  lacks \<^verbatim>\<open><\<close> and \<^verbatim>\<open>>\<close>; there is one replacement map;
  \<^verbatim>\<open>calculateTargetFileFullPath\<close> takes the relative path and normalizes it itself;
  the loop computes the target path first, renames, and then rewrites the contents
  at the target path. \<^verbatim>\<open>ucFirst\<close>, \<^verbatim>\<open>lcFirst\<close>, the dash-case derivation,
  \<^verbatim>\<open>replaceFileName\<close> and the RegExp calls are as above; \<^verbatim>\<open>replaceFileName\<close> gets the
  relative path, which the operating system resolves against the working directory.
\<close>

record namingKeys_srcMain =
  fileKey_srcMain :: string
  tag_srcMain :: string
  tagName_srcMain :: string
  className_srcMain :: string
  suffix_srcMain :: string

definition fromCustomElementKey_srcMain :: namingKeys_srcMain where
  "fromCustomElementKey_srcMain =
     \<lparr> fileKey_srcMain = ''custom-element'', tag_srcMain = ''custom-element'',
       tagName_srcMain = ''CUSTOM-ELEMENT'', className_srcMain = ''CustomElement'',
       suffix_srcMain = ''Element'' \<rparr>"

definition entries_srcMain :: "namingKeys_srcMain \<Rightarrow> (string \<times> string) list" where
  "entries_srcMain k =
     [(''file'', fileKey_srcMain k), (''tag'', tag_srcMain k), (''tagName'', tagName_srcMain k),
      (''className'', className_srcMain k), (''suffix'', suffix_srcMain k)]"

definition calculateTargetCustomElementKeysByClassName_srcMain ::
  "string \<Rightarrow> error + namingKeys_srcMain" where
  "calculateTargetCustomElementKeysByClassName_srcMain targetClassName =
     bindE (dashCase targetClassName) (\<lambda>d.
       Inr \<lparr> fileKey_srcMain = d, tag_srcMain = d, tagName_srcMain = toUpperCase d,
             className_srcMain = targetClassName,
             suffix_srcMain = suffix_srcMain fromCustomElementKey_srcMain \<rparr>)"

definition escapedCharacters_srcMain :: string where
  "escapedCharacters_srcMain = ''/-'' @ [backslash] @ ''^$*+?.()|[]{}''"

definition escapeRegex_srcMain :: "string \<Rightarrow> string" where
  "escapeRegex_srcMain text =
     concat (map (\<lambda>c. if c \<in> set escapedCharacters_srcMain then [backslash, c] else [c]) text)"

fun replaceStringByMapParts_srcMain :: "string \<Rightarrow> (string \<times> string) list \<Rightarrow> error + string" where
  "replaceStringByMapParts_srcMain templateString [] = Inr templateString"
| "replaceStringByMapParts_srcMain templateString ((key, value) # replacementMap) =
     bindE (newRegExp (escapeRegex_srcMain key)) (\<lambda>regexKey.
       replaceStringByMapParts_srcMain (replace templateString regexKey value) replacementMap)"

definition calculateTargetFileFullPath_srcMain ::
  "string \<Rightarrow> string \<Rightarrow> (string \<times> string) list \<Rightarrow> error + string" where
  "calculateTargetFileFullPath_srcMain cwd fromFilePath replacementMap =
     (let fromFullPath = normalize (cwd @ [sep] @ fromFilePath);
          directory = dirname fromFullPath;
          basename = basename fromFullPath;
          extension = extname basename;
          fileName = sliceOff basename (length extension)
      in bindE (replaceStringByMapParts_srcMain fileName replacementMap) (\<lambda>fileNameReplacement.
           Inr (directory @ [sep] @ fileNameReplacement @ extension)))"

definition replaceFileContents_srcMain ::
  "string \<Rightarrow> (string \<times> string) list \<Rightarrow> fileSystem \<Rightarrow> error + fileSystem" where
  "replaceFileContents_srcMain fileFullPath replacementMap fs =
     (if \<not> existsSync fileFullPath fs then Inr fs
      else
        bindE (fsp_readFile fileFullPath fs) (\<lambda>(fileContent, fs1).
        bindE (replaceStringByMapParts_srcMain fileContent replacementMap) (\<lambda>updatedFileContent.
        bindE (fsp_truncate fileFullPath fs1) (\<lambda>fs2.
          fsp_writeFile fileFullPath updatedFileContent fs2))))"

definition updateEntry_srcMain ::
  "string \<Rightarrow> (string \<times> string) list \<Rightarrow> string \<times> substitutionEnum list \<Rightarrow> fileSystem
     \<Rightarrow> error + fileSystem" where
  "updateEntry_srcMain cwd replacementMap entry fs =
     (let key = fst entry; value = snd entry
      in bindE (calculateTargetFileFullPath_srcMain cwd key replacementMap) (\<lambda>targetFullPath.
         bindE (if Filename \<in> set value
                then replaceFileName (getFileFullPath cwd key) targetFullPath fs
                else Inr fs) (\<lambda>fs1.
           if Contents \<in> set value
           then replaceFileContents_srcMain targetFullPath replacementMap fs1
           else Inr fs1)))"

fun updateFiles_srcMain ::
  "string \<Rightarrow> (string \<times> string) list \<Rightarrow> (string \<times> substitutionEnum list) list \<Rightarrow> fileSystem
     \<Rightarrow> error + fileSystem" where
  "updateFiles_srcMain cwd replacementMap [] fs = Inr fs"
| "updateFiles_srcMain cwd replacementMap (entry # manifest) fs =
     bindE (updateEntry_srcMain cwd replacementMap entry fs)
       (updateFiles_srcMain cwd replacementMap manifest)"

section \<open>Properties\<close>

subsection \<open>The error monad and the characters\<close>

lemma bindE_Inr [simp]: "bindE (Inr x) f = f x"
  by (simp add: bindE_def)

lemma bindE_Inl [simp]: "bindE (Inl e) f = Inl e"
  by (simp add: bindE_def)

lemma mapE_total: "mapE (\<lambda>x. Inr (g x)) xs = Inr (map g xs)"
  by (induction xs) simp_all

lemma char_of_bits:
  "char_of (n::nat) = Char (odd n) (odd (n div 2)) (odd (n div 4)) (odd (n div 8))
     (odd (n div 16)) (odd (n div 32)) (odd (n div 64)) (odd (n div 128))"
  by (simp add: char_of_def bit_iff_odd)

lemmas char_eval = isUpperAZ_def isLowerAZ_def isDigit_def toLowerCaseChar_def
  toUpperCaseChar_def char_of_bits

lemma toLowerCaseChar_not_upper: "\<not> isUpperAZ (toLowerCaseChar c)"
  by (simp add: toLowerCaseChar_def isUpperAZ_def)

lemma toUpperCaseChar_toLowerCaseChar:
  "\<not> isLowerAZ c \<Longrightarrow> toUpperCaseChar (toLowerCaseChar c) = c"
  by (auto simp add: toLowerCaseChar_def toUpperCaseChar_def isUpperAZ_def isLowerAZ_def)

lemma toLowerCaseChar_dash: "toLowerCaseChar c = CHR ''-'' \<longleftrightarrow> c = CHR ''-''"
  by (auto simp add: toLowerCaseChar_def isUpperAZ_def char_of_eq_iff take_bit_eq_mod)

subsection \<open>The guards of \<open>ucFirst\<close> and \<open>lcFirst\<close> keep them from throwing\<close>

lemma ucFirst_total:
  "ucFirst text = Inr (case text of [] \<Rightarrow> [] | c # cs \<Rightarrow> toUpperCaseChar c # cs)"
  by (cases "text")
     (simp_all add: ucFirst_def index0_def toUpperCaseOf_def toUpperCase_def substring_def)

lemma lcFirst_total:
  "lcFirst text = Inr (case text of [] \<Rightarrow> [] | c # cs \<Rightarrow> toLowerCaseChar c # cs)"
  by (cases "text")
     (simp_all add: lcFirst_def index0_def toLowerCaseOf_def toLowerCase_def substring_def)

lemma dashCase_total:
  "dashCase targetClassName =
     Inr (case targetClassName of [] \<Rightarrow> []
          | c # cs \<Rightarrow> toLowerCaseChar c #
              concat (map (\<lambda>d. if isUpperAZ d then [CHR ''-'', toLowerCaseChar d] else [d]) cs))"
proof -
  have cb: "(\<lambda>c. if isUpperAZ c
                 then bindE (toLowerCaseOf (index0 [c])) (\<lambda>l. Inr (CHR ''-'' # l))
                 else Inr [c])
          = (\<lambda>c. Inr (if isUpperAZ c then [CHR ''-'', toLowerCaseChar c] else [c]))"
    by (rule ext) (simp add: index0_def toLowerCaseOf_def toLowerCase_def)
  show ?thesis
    by (cases targetClassName)
       (simp_all add: dashCase_def lcFirst_total replaceEachUpperAZ_def cb mapE_total
          toLowerCaseChar_not_upper)
qed

lemma keys_total:
  "calculateTargetCustomElementKeysByClassName targetClassName =
     Inr \<lparr> fileKey = projr (dashCase targetClassName), fileSuffix = ''element'',
           tag = projr (dashCase targetClassName),
           tagName = toUpperCase (projr (dashCase targetClassName)),
           className = targetClassName, suffix = ''Element'' \<rparr>"
  by (simp add: calculateTargetCustomElementKeysByClassName_def dashCase_total lcFirst_total
        fromCustomElementKey_def toLowerCaseChar_def isUpperAZ_def char_of_eq_iff)

subsection \<open>Naming keys of a class name\<close>

lemma keys_srcMain_total:
  "calculateTargetCustomElementKeysByClassName_srcMain targetClassName =
     Inr \<lparr> fileKey_srcMain = projr (dashCase targetClassName),
           tag_srcMain = projr (dashCase targetClassName),
           tagName_srcMain = toUpperCase (projr (dashCase targetClassName)),
           className_srcMain = targetClassName, suffix_srcMain = ''Element'' \<rparr>"
  by (simp add: calculateTargetCustomElementKeysByClassName_srcMain_def dashCase_total
        fromCustomElementKey_srcMain_def)

text \<open>
  Claim C6, as amended. \<^verbatim>\<open>calculateTargetCustomElementKeysByClassName\<close> applied to the
  empty string does not throw, in either revision: it returns the keys whose
  \<^verbatim>\<open>file\<close>, \<^verbatim>\<open>tag\<close>, \<^verbatim>\<open>tagName\<close> and \<^verbatim>\<open>className\<close> are the empty string and whose
  \<^verbatim>\<open>suffix\<close> is \<^verbatim>\<open>Element\<close>. In the latest revision \<^verbatim>\<open>fileSuffix\<close> is \<^verbatim>\<open>element\<close>; the
  keys of \<^verbatim>\<open>src/main.js\<close> have no \<^verbatim>\<open>fileSuffix\<close>.
\<close>

theorem C6_empty_class_name:
  "calculateTargetCustomElementKeysByClassName [] =
     Inr \<lparr> fileKey = [], fileSuffix = ''element'', tag = [], tagName = [],
           className = [], suffix = ''Element'' \<rparr>
   \<and> calculateTargetCustomElementKeysByClassName_srcMain [] =
     Inr \<lparr> fileKey_srcMain = [], tag_srcMain = [], tagName_srcMain = [],
           className_srcMain = [], suffix_srcMain = ''Element'' \<rparr>"
  by (simp add: keys_total keys_srcMain_total dashCase_total toUpperCase_def)

text \<open>
  The claim as written fails on \<^verbatim>\<open>src/main.js\<close>: the object returned there for the
  empty string has the five keys below, and \<^verbatim>\<open>fileSuffix\<close> is not one of them.
\<close>

theorem C6_counterexample:
  "calculateTargetCustomElementKeysByClassName_srcMain [] =
     Inr \<lparr> fileKey_srcMain = [], tag_srcMain = [], tagName_srcMain = [],
           className_srcMain = [], suffix_srcMain = ''Element'' \<rparr>
   \<and> map fst (entries_srcMain
         \<lparr> fileKey_srcMain = [], tag_srcMain = [], tagName_srcMain = [],
           className_srcMain = [], suffix_srcMain = ''Element'' \<rparr>)
       = [''file'', ''tag'', ''tagName'', ''className'', ''suffix'']
   \<and> map_of (entries_srcMain
         \<lparr> fileKey_srcMain = [], tag_srcMain = [], tagName_srcMain = [],
           className_srcMain = [], suffix_srcMain = ''Element'' \<rparr>) ''fileSuffix''
       = None"
  by (simp add: keys_srcMain_total dashCase_total toUpperCase_def entries_srcMain_def)

text \<open>
  Claim C10. In the dash-case form every capital letter after the first character
  gets a hyphen of its own: \<^verbatim>\<open>XMLHttp\<close> becomes \<^verbatim>\<open>x-m-l-http\<close>; in general the tag is the
  lower-cased first character followed, character by character, by a hyphen and
  the lower-case letter for a capital and by the character itself otherwise; so a
  run of capitals anywhere behind the first character becomes as many
  hyphen-and-letter pairs, never one segment.
\<close>

theorem C10_each_capital_its_own_hyphen:
  "(\<exists>k. calculateTargetCustomElementKeysByClassName ''XMLHttp'' = Inr k
        \<and> tag k = ''x-m-l-http'' \<and> fileKey k = ''x-m-l-http'')
   \<and> (\<exists>k. calculateTargetCustomElementKeysByClassName (c # cs) = Inr k
        \<and> tag k = toLowerCaseChar c #
              concat (map (\<lambda>d. if isUpperAZ d then [CHR ''-'', toLowerCaseChar d] else [d]) cs)
        \<and> fileKey k = tag k)
   \<and> (list_all isUpperAZ capitals \<longrightarrow>
        (\<exists>k. calculateTargetCustomElementKeysByClassName (c # pre @ capitals @ post) = Inr k
          \<and> tag k =
              (toLowerCaseChar c #
                 concat (map (\<lambda>d. if isUpperAZ d then [CHR ''-'', toLowerCaseChar d] else [d]) pre))
              @ concat (map (\<lambda>d. [CHR ''-'', toLowerCaseChar d]) capitals)
              @ concat (map (\<lambda>d. if isUpperAZ d then [CHR ''-'', toLowerCaseChar d] else [d]) post)))"
proof (intro conjI impI)
  show "\<exists>k. calculateTargetCustomElementKeysByClassName ''XMLHttp'' = Inr k
        \<and> tag k = ''x-m-l-http'' \<and> fileKey k = ''x-m-l-http''"
    by (simp add: keys_total dashCase_total toLowerCaseChar_def isUpperAZ_def char_of_eq_iff)
  show "\<exists>k. calculateTargetCustomElementKeysByClassName (c # cs) = Inr k
        \<and> tag k = toLowerCaseChar c #
              concat (map (\<lambda>d. if isUpperAZ d then [CHR ''-'', toLowerCaseChar d] else [d]) cs)
        \<and> fileKey k = tag k"
    by (simp add: keys_total dashCase_total)
  assume caps: "list_all isUpperAZ capitals"
  have run: "concat (map (\<lambda>d. if isUpperAZ d then [CHR ''-'', toLowerCaseChar d] else [d]) capitals)
             = concat (map (\<lambda>d. [CHR ''-'', toLowerCaseChar d]) capitals)"
    using caps by (induction capitals) simp_all
  show "\<exists>k. calculateTargetCustomElementKeysByClassName (c # pre @ capitals @ post) = Inr k
          \<and> tag k =
              (toLowerCaseChar c #
                 concat (map (\<lambda>d. if isUpperAZ d then [CHR ''-'', toLowerCaseChar d] else [d]) pre))
              @ concat (map (\<lambda>d. [CHR ''-'', toLowerCaseChar d]) capitals)
              @ concat (map (\<lambda>d. if isUpperAZ d then [CHR ''-'', toLowerCaseChar d] else [d]) post)"
    by (simp add: keys_total dashCase_total run)
qed

theorem C10_each_capital_its_own_hyphen_witness:
  "list_all isUpperAZ ''ML''
   \<and> (\<exists>k. calculateTargetCustomElementKeysByClassName ''XMLHttp'' = Inr k
          \<and> tag k = ''x'' @ ''-m-l'' @ ''-http'')"
  using C10_each_capital_its_own_hyphen
          [where c = "CHR ''X''" and pre = "[]" and capitals = "''ML''" and post = "''Http''"]
  by (simp add: char_eval)

subsection \<open>Splitting on hyphens and capitalising\<close>

lemma split_not_Nil: "split x s \<noteq> []"
  by (induction s) (simp_all split: list.splits)

lemma split_Cons_other:
  "c \<noteq> x \<Longrightarrow> split x (c # cs) = (c # hd (split x cs)) # tl (split x cs)"
  using split_not_Nil [of x cs] by (cases "split x cs") simp_all

lemma split_Cons_sep: "split x (x # cs) = [] # split x cs"
  by simp

lemma split_free: "x \<notin> set w \<Longrightarrow> split x w = [w]"
  by (induction w) auto

lemma split_append: "x \<notin> set w \<Longrightarrow> split x (w @ x # r) = w # split x r"
  by (induction w) (auto simp add: split_not_Nil split: list.splits)

lemma split_joinWith:
  "ws \<noteq> [] \<Longrightarrow> (\<forall>w \<in> set ws. x \<notin> set w) \<Longrightarrow> split x (joinWith x ws) = ws"
  by (induction x ws rule: joinWith.induct) (simp_all add: split_free split_append)

lemma name_total:
  "calculateCustomElementNameFromRepositoryName repositoryName =
     Inr (concat (map (\<lambda>w. case w of [] \<Rightarrow> [] | c # cs \<Rightarrow> toUpperCaseChar c # cs)
                   (split CHR ''-'' repositoryName)))"
proof -
  have "(\<lambda>word. ucFirst word)
        = (\<lambda>w. Inr (case w of [] \<Rightarrow> [] | c # cs \<Rightarrow> toUpperCaseChar c # cs))"
    by (rule ext) (rule ucFirst_total)
  then show ?thesis
    by (simp add: calculateCustomElementNameFromRepositoryName_def mapE_total join_def)
qed

lemma concat_drop_empty:
  "concat (map (\<lambda>w. case w of [] \<Rightarrow> [] | c # cs \<Rightarrow> f c cs) ws)
   = concat (map (\<lambda>w. f (hd w) (tl w)) (filter (\<lambda>w. w \<noteq> []) ws))"
  by (induction ws) (simp_all split: list.splits)

lemma lower_not_dash: "isLowerAZ c \<Longrightarrow> c \<noteq> CHR ''-''"
  by (auto simp add: isLowerAZ_def)

text \<open>
  Claim C8. For a repository name made of lower-case words joined by hyphens,
  \<^verbatim>\<open>calculateCustomElementNameFromRepositoryName\<close> returns the words concatenated, each
  with its first letter in upper case, and no hyphen (\<^verbatim>\<open>custom-element-boilerplate\<close>
  gives \<^verbatim>\<open>CustomElementBoilerplate\<close>); for any string, the result is the same as
  if the empty segments between hyphens were not there.
\<close>

theorem C8_candidate_class_name:
  "calculateCustomElementNameFromRepositoryName ''custom-element-boilerplate''
     = Inr ''CustomElementBoilerplate''
   \<and> (list_all (\<lambda>w. w \<noteq> [] \<and> list_all isLowerAZ w) ws \<longrightarrow>
        calculateCustomElementNameFromRepositoryName (joinWith CHR ''-'' ws)
          = Inr (concat (map (\<lambda>w. toUpperCaseChar (hd w) # tl w) ws)))
   \<and> calculateCustomElementNameFromRepositoryName repositoryName
        = Inr (concat (map (\<lambda>w. toUpperCaseChar (hd w) # tl w)
                        (filter (\<lambda>w. w \<noteq> []) (split CHR ''-'' repositoryName))))"
proof (intro conjI impI)
  show "calculateCustomElementNameFromRepositoryName ''custom-element-boilerplate''
          = Inr ''CustomElementBoilerplate''"
    by (simp add: name_total char_eval)
  show general: "calculateCustomElementNameFromRepositoryName repositoryName
        = Inr (concat (map (\<lambda>w. toUpperCaseChar (hd w) # tl w)
                        (filter (\<lambda>w. w \<noteq> []) (split CHR ''-'' repositoryName))))"
    for repositoryName
    by (simp add: name_total concat_drop_empty)
  assume "list_all (\<lambda>w. w \<noteq> [] \<and> list_all isLowerAZ w) ws"
  then have words: "\<forall>w \<in> set ws. w \<noteq> [] \<and> list_all isLowerAZ w"
    by (simp add: list_all_iff)
  show "calculateCustomElementNameFromRepositoryName (joinWith CHR ''-'' ws)
          = Inr (concat (map (\<lambda>w. toUpperCaseChar (hd w) # tl w) ws))"
  proof (cases "ws = []")
    case True
    then show ?thesis by (simp add: name_total)
  next
    case False
    have free: "\<forall>w \<in> set ws. CHR ''-'' \<notin> set w"
      using words lower_not_dash by (auto simp add: list_all_iff)
    have keep: "filter (\<lambda>w. w \<noteq> []) ws = ws"
      using words by (simp add: filter_id_conv)
    show ?thesis
      by (simp add: general split_joinWith [OF False free] keep)
  qed
qed

theorem C8_candidate_class_name_witness:
  "list_all (\<lambda>w. w \<noteq> [] \<and> list_all isLowerAZ w) [''custom'', ''element'', ''boilerplate'']
   \<and> calculateCustomElementNameFromRepositoryName
         (joinWith CHR ''-'' [''custom'', ''element'', ''boilerplate''])
       = Inr ''CustomElementBoilerplate''"
  using C8_candidate_class_name [where ws = "[''custom'', ''element'', ''boilerplate'']"]
  by (simp add: char_eval)

subsection \<open>From the tag back to the class name\<close>

lemma recapitalise_Cons:
  "x \<noteq> CHR ''-'' \<Longrightarrow>
   concat (map (\<lambda>w. case w of [] \<Rightarrow> [] | c # cs \<Rightarrow> toUpperCaseChar c # cs)
             (split CHR ''-'' (x # t)))
   = toUpperCaseChar x # hd (split CHR ''-'' t)
       @ concat (map (\<lambda>w. case w of [] \<Rightarrow> [] | c # cs \<Rightarrow> toUpperCaseChar c # cs)
                   (tl (split CHR ''-'' t)))"
  by (cases "split CHR ''-'' t") (simp_all add: split_not_Nil)

lemma recapitalise_dashed:
  "CHR ''-'' \<notin> set cs \<Longrightarrow>
   hd (split CHR ''-''
         (concat (map (\<lambda>d. if isUpperAZ d then [CHR ''-'', toLowerCaseChar d] else [d]) cs)))
    @ concat (map (\<lambda>w. case w of [] \<Rightarrow> [] | c # cs \<Rightarrow> toUpperCaseChar c # cs)
        (tl (split CHR ''-''
          (concat (map (\<lambda>d. if isUpperAZ d then [CHR ''-'', toLowerCaseChar d] else [d]) cs)))))
   = cs"
proof (induction cs)
  case Nil
  show ?case by simp
next
  case (Cons d ds)
  then have d: "d \<noteq> CHR ''-''" and ds: "CHR ''-'' \<notin> set ds"
    by auto
  show ?case
  proof (cases "isUpperAZ d")
    case True
    then have "\<not> isLowerAZ d"
      by (simp add: isUpperAZ_def isLowerAZ_def)
    then have restore: "toUpperCaseChar (toLowerCaseChar d) = d"
      by (rule toUpperCaseChar_toLowerCaseChar)
    have "toLowerCaseChar d \<noteq> CHR ''-''"
      using d by (simp add: toLowerCaseChar_dash)
    then show ?thesis
      using True Cons.IH [OF ds] restore
      by (simp del: split.simps(2) add: split_Cons_other split_Cons_sep)
  next
    case False
    then show ?thesis
      using d Cons.IH [OF ds]
      by (simp del: split.simps(2) add: split_Cons_other split_Cons_sep)
  qed
qed

lemma tag_round_trip:
  assumes "CHR ''-'' \<notin> set (c # cs)" and "\<not> isLowerAZ c"
  shows "calculateCustomElementNameFromRepositoryName
           (toLowerCaseChar c #
              concat (map (\<lambda>d. if isUpperAZ d then [CHR ''-'', toLowerCaseChar d] else [d]) cs))
         = Inr (c # cs)"
proof -
  from assms(1) have c: "toLowerCaseChar c \<noteq> CHR ''-''" and cs: "CHR ''-'' \<notin> set cs"
    by (auto simp add: toLowerCaseChar_dash)
  show ?thesis
    unfolding name_total recapitalise_Cons [OF c] recapitalise_dashed [OF cs]
    by (simp add: toUpperCaseChar_toLowerCaseChar [OF assms(2)])
qed

text \<open>
  Claim C5. For every PascalCase class name \<open>C\<close> (it starts with a capital letter and
  holds no hyphen), the tag derived from \<open>C\<close> gives \<open>C\<close> back when it is split on
  hyphens, each segment gets its first letter in upper case, and the segments are
  concatenated; that re-capitalisation is what
  \<^verbatim>\<open>calculateCustomElementNameFromRepositoryName\<close> computes.
\<close>

theorem C5_tag_round_trip:
  assumes "C \<noteq> []" and "isUpperAZ (hd C)" and "CHR ''-'' \<notin> set C"
  shows "\<exists>k. calculateTargetCustomElementKeysByClassName C = Inr k
            \<and> calculateCustomElementNameFromRepositoryName (tag k) = Inr C"
proof -
  from assms(1) obtain c cs where C: "C = c # cs"
    by (cases C) auto
  with assms(2) have "\<not> isLowerAZ c"
    by (simp add: isUpperAZ_def isLowerAZ_def)
  with assms(3) C show ?thesis
    using tag_round_trip [of c cs] by (simp add: keys_total dashCase_total)
qed

theorem C5_tag_round_trip_witness:
  "''FooBar'' \<noteq> [] \<and> isUpperAZ (hd ''FooBar'') \<and> CHR ''-'' \<notin> set ''FooBar''
   \<and> (\<exists>k. calculateTargetCustomElementKeysByClassName ''FooBar'' = Inr k
          \<and> tag k = ''foo-bar''
          \<and> calculateCustomElementNameFromRepositoryName (tag k) = Inr ''FooBar'')"
proof -
  have h1: "''FooBar'' \<noteq> []" by simp
  have h2: "isUpperAZ (hd ''FooBar'')" by (simp add: isUpperAZ_def)
  have h3: "CHR ''-'' \<notin> set ''FooBar''" by simp
  have t: "tag (projr (calculateTargetCustomElementKeysByClassName ''FooBar'')) = ''foo-bar''"
    by (simp add: keys_total dashCase_total char_eval)
  show ?thesis
    using h1 h2 h3 t C5_tag_round_trip [OF h1 h2 h3] by auto
qed

subsection \<open>The class name taken from the prompt\<close>

lemma trimSuffix_Element:
  "trimSuffix chosen ''Element''
   = (if endsWith chosen ''Element'' then take (length chosen - 7) chosen else chosen)"
  by (auto simp add: trimSuffix_def sliceOff_def endsWith_def eval_nat_numeral)

text \<open>
  Claim C4, as amended. The class name used is obtained in two steps. First a name is
  chosen: the candidate when the answer is blank after trimming, and otherwise the
  trimmed answer with its first character in upper case. Then one trailing \<^verbatim>\<open>Element\<close>
  is removed from the chosen name if it ends with it, whether the name is the
  candidate or the answer.
\<close>

theorem C4_class_name_used:
  "answer promptAnswer candidate =
     Inr (let chosen = (if trim promptAnswer = [] then candidate
                        else toUpperCaseChar (hd (trim promptAnswer)) # tl (trim promptAnswer))
          in if endsWith chosen ''Element'' then take (length chosen - 7) chosen else chosen)"
  by (cases "trim promptAnswer")
     (simp_all add: answer_def ucFirst_total fromCustomElementKey_def trimSuffix_Element Let_def)

text \<open>
  The claim as written fails twice: a blank answer with the candidate \<^verbatim>\<open>MyElement\<close>
  gives \<^verbatim>\<open>My\<close>, not the candidate, and the answer \<^verbatim>\<open>fooBar\<close> gives \<^verbatim>\<open>FooBar\<close>, although
  it needs no trimming and does not end with the suffix.
\<close>

theorem C4_counterexample:
  "trim ''   '' = [] \<and> answer ''   '' ''MyElement'' = Inr ''My''
   \<and> answer ''   '' ''MyElement'' \<noteq> Inr ''MyElement''
   \<and> trim ''fooBar'' = ''fooBar'' \<and> answer ''fooBar'' ''Candidate'' = Inr ''FooBar''
   \<and> answer ''fooBar'' ''Candidate'' \<noteq> Inr ''fooBar''"
  by (simp add: answer_def ucFirst_total fromCustomElementKey_def trimSuffix_Element trim_def
        isWhiteSpace_def endsWith_def char_eval)

subsection \<open>Escaped patterns are literal\<close>

lemma escaped_not_identifier: "c \<in> set escapedCharacters \<Longrightarrow> \<not> isIdentifierPart c"
  unfolding escapedCharacters_def
  by (auto simp add: isIdentifierPart_def isUpperAZ_def isLowerAZ_def isDigit_def)

lemma syntax_escaped: "c \<in> set syntaxCharacters \<Longrightarrow> c \<in> set escapedCharacters"
  unfolding escapedCharacters_def syntaxCharacters_def by auto

lemma regexTokens_plain:
  "c \<notin> set syntaxCharacters \<Longrightarrow> regexTokens (c # t) = Character c # regexTokens t"
  by (cases t) (auto simp add: syntaxCharacters_def)

lemma regexTokens_escaped:
  "\<not> isIdentifierPart c \<Longrightarrow> regexTokens (backslash # c # t) = Character c # regexTokens t"
  by simp

lemma literal_of_escaped:
  "literalOf (regexTokens
     (concat (map (\<lambda>c. if c \<in> set escapedCharacters then [backslash, c] else [c]) key)))
   = Some key"
proof (induction key)
  case Nil
  show ?case by simp
next
  case (Cons c cs)
  show ?case
  proof (cases "c \<in> set escapedCharacters")
    case True
    then show ?thesis
      using Cons.IH escaped_not_identifier [OF True]
      by (simp del: regexTokens.simps add: regexTokens_escaped)
  next
    case False
    then have "c \<notin> set syntaxCharacters"
      using syntax_escaped by blast
    then show ?thesis
      using False Cons.IH by (simp del: regexTokens.simps add: regexTokens_plain)
  qed
qed

lemma newRegExp_escapeRegex: "newRegExp (escapeRegex key) = Inr key"
  using literal_of_escaped [of key]
  by (cases key) (simp_all add: newRegExp_def escapeRegex_def)

lemma replaceStringByMapParts_total:
  "replaceStringByMapParts text substitutions
   = Inr (foldl (\<lambda>t (pattern, replacement). replace t pattern replacement) text substitutions)"
  by (induction substitutions arbitrary: "text") (auto simp add: newRegExp_escapeRegex)


text \<open>The smaller class of the older \<^verbatim>\<open>escapeRegex\<close> still holds every syntax
  character, so its patterns are literal as well and the substitutions agree.\<close>

lemma escaped_srcMain_not_identifier:
  "c \<in> set escapedCharacters_srcMain \<Longrightarrow> \<not> isIdentifierPart c"
  unfolding escapedCharacters_srcMain_def
  by (auto simp add: isIdentifierPart_def isUpperAZ_def isLowerAZ_def isDigit_def)

lemma syntax_escaped_srcMain:
  "c \<in> set syntaxCharacters \<Longrightarrow> c \<in> set escapedCharacters_srcMain"
  unfolding escapedCharacters_srcMain_def syntaxCharacters_def by auto

lemma newRegExp_escapeRegex_srcMain: "newRegExp (escapeRegex_srcMain key) = Inr key"
proof -
  have "literalOf (regexTokens (escapeRegex_srcMain key)) = Some key"
    unfolding escapeRegex_srcMain_def
  proof (induction key)
    case Nil
    show ?case by simp
  next
    case (Cons c cs)
    show ?case
    proof (cases "c \<in> set escapedCharacters_srcMain")
      case True
      then show ?thesis
        using Cons.IH escaped_srcMain_not_identifier [OF True]
        by (simp del: regexTokens.simps add: regexTokens_escaped)
    next
      case False
      then have "c \<notin> set syntaxCharacters"
        using syntax_escaped_srcMain by blast
      then show ?thesis
        using False Cons.IH by (simp del: regexTokens.simps add: regexTokens_plain)
    qed
  qed
  then show ?thesis
    by (simp add: newRegExp_def)
qed

lemma replaceStringByMapParts_srcMain_same:
  "replaceStringByMapParts_srcMain text substitutions = replaceStringByMapParts text substitutions"
  by (induction substitutions arbitrary: "text")
     (auto simp add: newRegExp_escapeRegex newRegExp_escapeRegex_srcMain)

subsection \<open>Replacing a literal\<close>

lemma getSubstitution_plain:
  "CHR ''$'' \<notin> set replacement \<Longrightarrow>
   getSubstitution matched preceding following replacement = replacement"
  by (induction matched preceding following replacement rule: getSubstitution.induct) auto

lemma replaceFrom_preceding:
  "CHR ''$'' \<notin> set replacement \<Longrightarrow> lit \<noteq> [] \<Longrightarrow>
   replaceFrom lit replacement p t = replaceFrom lit replacement q t"
proof (induction t arbitrary: p q rule: length_induct)
  case (1 t)
  show ?case
  proof (cases t)
    case Nil
    with 1 show ?thesis by simp
  next
    case (Cons c cs)
    show ?thesis
    proof (cases "take (length lit) (c # cs) = lit")
      case True
      have "length (drop (length lit) (c # cs)) < length t"
        using Cons 1(3) by (cases lit) simp_all
      then have rest: "replaceFrom lit replacement (p @ lit) (drop (length lit) (c # cs))
                 = replaceFrom lit replacement (q @ lit) (drop (length lit) (c # cs))"
        using 1 by blast
      have "replaceFrom lit replacement p (c # cs)
            = replacement @ replaceFrom lit replacement (p @ lit) (drop (length lit) (c # cs))"
        using True 1(2,3) by (subst replaceFrom.simps(2)) (simp add: getSubstitution_plain)
      moreover have "replaceFrom lit replacement q (c # cs)
            = replacement @ replaceFrom lit replacement (q @ lit) (drop (length lit) (c # cs))"
        using True 1(2,3) by (subst replaceFrom.simps(2)) (simp add: getSubstitution_plain)
      ultimately show ?thesis
        using Cons rest by simp
    next
      case False
      have rest: "replaceFrom lit replacement (p @ [c]) cs = replaceFrom lit replacement (q @ [c]) cs"
        using 1 Cons by simp
      have "replaceFrom lit replacement p (c # cs) = c # replaceFrom lit replacement (p @ [c]) cs"
        using False 1(3) by (subst replaceFrom.simps(2)) simp
      moreover have "replaceFrom lit replacement q (c # cs) = c # replaceFrom lit replacement (q @ [c]) cs"
        using False 1(3) by (subst replaceFrom.simps(2)) simp
      ultimately show ?thesis
        using Cons rest by simp
    qed
  qed
qed

lemma replace_first_occurrence:
  assumes "key \<noteq> []" and "CHR ''$'' \<notin> set replacement"
    and "\<forall>i<length a. take (length key) (drop i (a @ key @ b)) \<noteq> key"
  shows "replace (a @ key @ b) key replacement = a @ replacement @ replace b key replacement"
  using assms(3)
proof (induction a)
  case Nil
  obtain k ks where key: "key = k # ks"
    using assms(1) by (cases key) auto
  have "replaceFrom key replacement [] (k # ks @ b)
        = getSubstitution key [] (drop (length key) (k # ks @ b)) replacement
          @ replaceFrom key replacement ([] @ key) (drop (length key) (k # ks @ b))"
    using assms(1) key by (subst replaceFrom.simps(2)) simp
  then show ?case
    using key assms(2) replaceFrom_preceding [OF assms(2) assms(1), where p = "key" and q = "[]"]
      replaceFrom_preceding [OF assms(2) assms(1), where p = "[x]" and q = "[]"]
    by (simp add: replace_def getSubstitution_plain)
next
  case (Cons x a)
  from Cons.prems have here: "take (length key) (x # a @ key @ b) \<noteq> key"
    by (metis append_Cons drop0 length_greater_0_conv list.distinct(1))
  from Cons.prems have later: "\<forall>i<length a. take (length key) (drop i (a @ key @ b)) \<noteq> key"
    by (metis Suc_less_eq append_Cons drop_Suc_Cons length_Cons)
  have "replaceFrom key replacement [] (x # a @ key @ b)
        = x # replaceFrom key replacement ([] @ [x]) (a @ key @ b)"
    using assms(1) here by (subst replaceFrom.simps(2)) simp
  then show ?case
    using Cons.IH [OF later] replaceFrom_preceding [OF assms(2) assms(1), where p = "key" and q = "[]"]
      replaceFrom_preceding [OF assms(2) assms(1), where p = "[x]" and q = "[]"]
    by (simp add: replace_def)
qed

text \<open>
  Claim C1. \<^verbatim>\<open>replaceStringByMapParts\<close> applies the pairs in list order, each to the
  result of the one before: the list \<^verbatim>\<open>[("a","b"), ("b","c")]\<close> turns \<^verbatim>\<open>a\<close> into \<^verbatim>\<open>c\<close>, and
  for every text and every list the result is the left fold of the single
  replacements over the list, starting from the text.
\<close>

theorem C1_substitutions_in_list_order:
  "replaceStringByMapParts ''a'' [(''a'', ''b''), (''b'', ''c'')] = Inr ''c''
   \<and> replaceStringByMapParts text substitutions
       = Inr (foldl (\<lambda>t (pattern, replacement). replace t pattern replacement) text substitutions)
   \<and> replaceStringByMapParts text ((pattern, replacement) # rest)
       = replaceStringByMapParts (replace text pattern replacement) rest"
  by (simp add: replaceStringByMapParts_total replace_def)

text \<open>
  Claim C3, as amended. \<^verbatim>\<open>escapeRegex\<close> puts a backslash in front of each of
  \<^verbatim>\<open>/ - \ ^ $ * + ? . ( ) | [ ] { }\<close> in both revisions, and in the latest revision
  also in front of \<^verbatim>\<open><\<close> and \<^verbatim>\<open>>\<close>; either class covers every syntax character of the
  pattern language. So in both revisions the pattern built from an escaped key is
  the key read as a literal, and one substitution is the literal replacement of the
  key. Where a text holds the key (\<^verbatim>\<open>custom-element\<close>, say) and no occurrence starts
  earlier, the text in front is kept, exactly the key is replaced, and the scan goes
  on behind it (stated for a replacement without \<^verbatim>\<open>$\<close>, which stands for itself).
\<close>

theorem C3_patterns_are_literal:
  "map (\<lambda>c. escapeRegex [c]) (''/-'' @ [backslash] @ ''^$*+?.()|[]{}<>'')
     = map (\<lambda>c. [backslash, c]) (''/-'' @ [backslash] @ ''^$*+?.()|[]{}<>'')
   \<and> map (\<lambda>c. escapeRegex_srcMain [c]) (''/-'' @ [backslash] @ ''^$*+?.()|[]{}'')
     = map (\<lambda>c. [backslash, c]) (''/-'' @ [backslash] @ ''^$*+?.()|[]{}'')
   \<and> set syntaxCharacters \<subseteq> set escapedCharacters
   \<and> set syntaxCharacters \<subseteq> set escapedCharacters_srcMain
   \<and> newRegExp (escapeRegex key) = Inr key
   \<and> newRegExp (escapeRegex_srcMain key) = Inr key
   \<and> replaceStringByMapParts text [(key, replacement)] = Inr (replace text key replacement)
   \<and> replaceStringByMapParts_srcMain text [(key, replacement)]
       = Inr (replace text key replacement)
   \<and> (key \<noteq> [] \<and> CHR ''$'' \<notin> set replacement
        \<and> (\<forall>i<length a. take (length key) (drop i (a @ key @ b)) \<noteq> key)
       \<longrightarrow> replaceStringByMapParts (a @ key @ b) [(key, replacement)]
             = Inr (a @ replacement @ replace b key replacement)
         \<and> replaceStringByMapParts_srcMain (a @ key @ b) [(key, replacement)]
             = Inr (a @ replacement @ replace b key replacement))"
proof (intro conjI impI)
  show "map (\<lambda>c. escapeRegex [c]) (''/-'' @ [backslash] @ ''^$*+?.()|[]{}<>'')
     = map (\<lambda>c. [backslash, c]) (''/-'' @ [backslash] @ ''^$*+?.()|[]{}<>'')"
    by (simp add: escapeRegex_def escapedCharacters_def)
  show "map (\<lambda>c. escapeRegex_srcMain [c]) (''/-'' @ [backslash] @ ''^$*+?.()|[]{}'')
     = map (\<lambda>c. [backslash, c]) (''/-'' @ [backslash] @ ''^$*+?.()|[]{}'')"
    by (simp add: escapeRegex_srcMain_def escapedCharacters_srcMain_def)
  show "set syntaxCharacters \<subseteq> set escapedCharacters"
    using syntax_escaped by blast
  show "set syntaxCharacters \<subseteq> set escapedCharacters_srcMain"
    using syntax_escaped_srcMain by blast
  show "newRegExp (escapeRegex key) = Inr key"
    by (rule newRegExp_escapeRegex)
  show "newRegExp (escapeRegex_srcMain key) = Inr key"
    by (rule newRegExp_escapeRegex_srcMain)
  show "replaceStringByMapParts text [(key, replacement)] = Inr (replace text key replacement)"
    by (simp add: replaceStringByMapParts_total)
  show "replaceStringByMapParts_srcMain text [(key, replacement)]
       = Inr (replace text key replacement)"
    by (simp add: replaceStringByMapParts_srcMain_same replaceStringByMapParts_total)
  assume first: "key \<noteq> [] \<and> CHR ''$'' \<notin> set replacement
        \<and> (\<forall>i<length a. take (length key) (drop i (a @ key @ b)) \<noteq> key)"
  then show "replaceStringByMapParts (a @ key @ b) [(key, replacement)]
             = Inr (a @ replacement @ replace b key replacement)"
    by (simp add: replaceStringByMapParts_total replace_first_occurrence)
  from first show "replaceStringByMapParts_srcMain (a @ key @ b) [(key, replacement)]
             = Inr (a @ replacement @ replace b key replacement)"
    by (simp add: replaceStringByMapParts_srcMain_same replaceStringByMapParts_total
          replace_first_occurrence)
qed

theorem C3_patterns_are_literal_witness:
  "''custom-element'' \<noteq> [] \<and> CHR ''$'' \<notin> set ''foo-bar''
   \<and> take (length ''custom-element'') (drop 0 (''<'' @ ''custom-element'' @ ''>'')) \<noteq> ''custom-element''
   \<and> replaceStringByMapParts (''<'' @ ''custom-element'' @ ''>'') [(''custom-element'', ''foo-bar'')]
       = Inr ''<foo-bar>''
   \<and> replaceStringByMapParts_srcMain (''<'' @ ''custom-element'' @ ''>'')
         [(''custom-element'', ''foo-bar'')]
       = Inr ''<foo-bar>''"
  using C3_patterns_are_literal
          [where key = "''custom-element''" and replacement = "''foo-bar''" and a = "''<''" and b = "''>''"]
  by (simp add: replace_def)

text \<open>
  The claim as written fails on \<^verbatim>\<open>src/main.js\<close>: its \<^verbatim>\<open>escapeRegex\<close> leaves \<^verbatim>\<open><\<close> and \<^verbatim>\<open>>\<close>
  as they are.
\<close>

theorem C3_counterexample:
  "escapeRegex_srcMain ''<>'' = ''<>''
   \<and> escapeRegex_srcMain ''<>'' \<noteq> [backslash, CHR ''<'', backslash, CHR ''>'']"
  by (simp add: escapeRegex_srcMain_def escapedCharacters_srcMain_def)

subsection \<open>The target path of a file without extension\<close>

lemma replace_empty_text: "key \<noteq> [] \<Longrightarrow> replace [] key replacement = []"
  by (simp add: replace_def)

lemma replaceStringByMapParts_empty_text:
  "list_all (\<lambda>(key, replacement). key \<noteq> []) replacementMap \<Longrightarrow>
   replaceStringByMapParts [] replacementMap = Inr []"
  by (induction replacementMap) (auto simp add: newRegExp_escapeRegex replace_empty_text)

lemma resolveTemplates_total:
  "resolveTemplates prefixedKeyMap templates m =
     Inr (foldl (\<lambda>m (key, replacement).
                   AList.update (projr (replaceStringByMapParts key prefixedKeyMap))
                     (projr (replaceStringByMapParts replacement prefixedKeyMap)) m)
            m templates)"
  by (induction templates arbitrary: m) (auto simp add: replaceStringByMapParts_total)

lemma calculateReplacementMap_total:
  "calculateReplacementMap fromKeys toKeys =
     Inr \<lparr> filename = projr (resolveTemplates
               (setMapEntriesByPrefixedObjectKeys
                  (setMapEntriesByPrefixedObjectKeys [] ''from'' (entries fromKeys))
                  ''to'' (entries toKeys))
               (filename replacementTemplateMap) []),
           contents = projr (resolveTemplates
               (setMapEntriesByPrefixedObjectKeys
                  (setMapEntriesByPrefixedObjectKeys [] ''from'' (entries fromKeys))
                  ''to'' (entries toKeys))
               (contents replacementTemplateMap) []) \<rparr>"
  unfolding calculateReplacementMap_def Let_def
  by (simp add: resolveTemplates_total)

lemma prefixedKeyMap_entries:
  "setMapEntriesByPrefixedObjectKeys
     (setMapEntriesByPrefixedObjectKeys [] ''from'' (entries fromCustomElementKey))
     ''to'' (entries toKeys)
   = [(''{from:file}'', ''custom-element''), (''{from:fileSuffix}'', ''element''),
      (''{from:tag}'', ''custom-element''), (''{from:tagName}'', ''CUSTOM-ELEMENT''),
      (''{from:className}'', ''CustomElement''), (''{from:suffix}'', ''Element''),
      (''{to:file}'', fileKey toKeys), (''{to:fileSuffix}'', fileSuffix toKeys),
      (''{to:tag}'', tag toKeys), (''{to:tagName}'', tagName toKeys),
      (''{to:className}'', className toKeys), (''{to:suffix}'', suffix toKeys)]"
  by (simp add: entries_def fromCustomElementKey_def)

lemma from_file_resolved:
  "replaceStringByMapParts ''{from:file}''
     [(''{from:file}'', ''custom-element''), (''{from:fileSuffix}'', ''element''),
      (''{from:tag}'', ''custom-element''), (''{from:tagName}'', ''CUSTOM-ELEMENT''),
      (''{from:className}'', ''CustomElement''), (''{from:suffix}'', ''Element''),
      (''{to:file}'', a), (''{to:fileSuffix}'', b),
      (''{to:tag}'', c), (''{to:tagName}'', d),
      (''{to:className}'', e), (''{to:suffix}'', f)]
   = Inr ''custom-element''"
  by (simp add: replaceStringByMapParts_total replace_def)

lemma filename_map_key:
  "calculateReplacementMap fromCustomElementKey toKeys = Inr maps \<Longrightarrow>
   \<exists>replacement. filename maps = [(''custom-element'', replacement)]"
  unfolding calculateReplacementMap_total prefixedKeyMap_entries
  by (auto simp add: resolveTemplates_total replacementTemplateMap_def filenameTemplates_def
        from_file_resolved simp del: replaceStringByMapParts.simps)


text \<open>
  Claim C9. When \<^verbatim>\<open>path.extname\<close> of the base name is empty,
  \<^verbatim>\<open>calculateTargetFileFullPath\<close> slices the base name with \<^verbatim>\<open>slice(0, -0)\<close>, which is
  the empty string, applies the replacement map to that empty file name, and
  returns the directory followed by the separator and nothing else. The last step
  holds for every map without an empty pattern, and so for the map of file name
  replacements that the script builds, whatever the target keys are.
\<close>

theorem C9_no_extension:
  assumes "extname (basename fromFullPath) = []"
  shows "sliceOff (basename fromFullPath) (length (extname (basename fromFullPath))) = []
   \<and> calculateTargetFileFullPath fromFullPath replacementMap
       = bindE (replaceStringByMapParts [] replacementMap)
           (\<lambda>fileNameReplacement. Inr (dirname fromFullPath @ [sep] @ fileNameReplacement))
   \<and> (list_all (\<lambda>(key, replacement). key \<noteq> []) replacementMap \<longrightarrow>
        calculateTargetFileFullPath fromFullPath replacementMap = Inr (dirname fromFullPath @ [sep]))
   \<and> (calculateReplacementMap fromCustomElementKey toKeys = Inr maps \<longrightarrow>
        calculateTargetFileFullPath fromFullPath (filename maps) = Inr (dirname fromFullPath @ [sep]))"
proof (intro conjI impI)
  show "sliceOff (basename fromFullPath) (length (extname (basename fromFullPath))) = []"
    using assms by (simp add: sliceOff_def)
  show general: "calculateTargetFileFullPath fromFullPath m
       = bindE (replaceStringByMapParts [] m)
           (\<lambda>fileNameReplacement. Inr (dirname fromFullPath @ [sep] @ fileNameReplacement))"
    for m
    using assms by (simp add: calculateTargetFileFullPath_def Let_def sliceOff_def)
  show "calculateTargetFileFullPath fromFullPath replacementMap = Inr (dirname fromFullPath @ [sep])"
    if "list_all (\<lambda>(key, replacement). key \<noteq> []) replacementMap"
    using that
    by (simp add: general replaceStringByMapParts_empty_text del: replaceStringByMapParts.simps)
  show "calculateTargetFileFullPath fromFullPath (filename maps) = Inr (dirname fromFullPath @ [sep])"
    if "calculateReplacementMap fromCustomElementKey toKeys = Inr maps"
  proof -
    from that obtain replacement where "filename maps = [(''custom-element'', replacement)]"
      using filename_map_key by blast
    then show ?thesis
      by (simp add: general replaceStringByMapParts_empty_text
            del: replaceStringByMapParts.simps)
  qed
qed

theorem C9_no_extension_witness:
  "extname (basename ''/repo/Makefile'') = []
   \<and> dirname ''/repo/Makefile'' = ''/repo''
   \<and> calculateTargetFileFullPath ''/repo/Makefile'' [(''custom-element'', ''foo-bar-element'')]
       = Inr ''/repo/''"
proof -
  have h: "extname (basename ''/repo/Makefile'') = []"
    by (simp add: extname_def basename_def Let_def)
  have d: "dirname ''/repo/Makefile'' = ''/repo''"
    by (simp add: dirname_def Let_def)
  have m: "list_all (\<lambda>(key, replacement). key \<noteq> []) [(''custom-element'', ''foo-bar-element'')]"
    by simp
  from C9_no_extension [OF h, where replacementMap = "[(''custom-element'', ''foo-bar-element'')]"]
  have "calculateTargetFileFullPath ''/repo/Makefile'' [(''custom-element'', ''foo-bar-element'')]
        = Inr (dirname ''/repo/Makefile'' @ [sep])"
    using m by blast
  with h d show ?thesis
    by simp
qed

subsection \<open>Entries of the manifest\<close>

lemma calculateTargetFileFullPath_total:
  "\<exists>targetFullPath. calculateTargetFileFullPath fromFullPath replacementMap = Inr targetFullPath"
  by (simp add: calculateTargetFileFullPath_def Let_def replaceStringByMapParts_total)

lemma calculateTargetFileFullPath_srcMain_same:
  "calculateTargetFileFullPath_srcMain cwd fromFilePath replacementMap
   = calculateTargetFileFullPath (getFileFullPath cwd fromFilePath) replacementMap"
  by (simp add: calculateTargetFileFullPath_srcMain_def calculateTargetFileFullPath_def
        getFileFullPath_def replaceStringByMapParts_srcMain_same Let_def)

lemma replaceFileContents_srcMain_same:
  "replaceFileContents_srcMain fileFullPath replacementMap fs
   = replaceFileContents fileFullPath replacementMap fs"
  by (simp add: replaceFileContents_srcMain_def replaceFileContents_def
        replaceStringByMapParts_srcMain_same)

lemma basename_no_sep: "sep \<notin> set (basename path)"
  by (auto simp add: basename_def dest: set_takeWhileD)

lemma extname_no_sep: "sep \<notin> set (extname path)"
  using basename_no_sep [of path]
  by (auto simp add: extname_def Let_def dest: in_set_dropD)

lemma target_is_no_directory:
  assumes "extname (basename fromFullPath) \<noteq> []"
    and "calculateTargetFileFullPath fromFullPath replacementMap = Inr targetFullPath"
  shows "\<not> (targetFullPath \<noteq> [] \<and> last targetFullPath = sep)"
proof -
  have "last (extname (basename fromFullPath)) \<in> set (extname (basename fromFullPath))"
    using assms(1) by simp
  then have "last (extname (basename fromFullPath)) \<noteq> sep"
    using extname_no_sep [of "basename fromFullPath"] by auto
  then show ?thesis
    using assms
    by (auto simp add: calculateTargetFileFullPath_def Let_def replaceStringByMapParts_total)
qed

lemma replaceFileName_missing:
  "\<not> existsSync fromFullPath fs \<Longrightarrow> replaceFileName fromFullPath targetFullPath fs = Inr fs"
  by (simp add: replaceFileName_def)

lemma replaceFileContents_missing:
  "\<not> existsSync fileFullPath fs \<Longrightarrow> replaceFileContents fileFullPath replacementMap fs = Inr fs"
  by (simp add: replaceFileContents_def)

lemma replaceFileContents_existing:
  assumes "map_of (files fs) fileFullPath = Some fileContent"
  shows "replaceFileContents fileFullPath substitutions fs =
     Inr (fs\<lparr>files := AList.update fileFullPath
                     (projr (replaceStringByMapParts fileContent substitutions))
                     (AList.update fileFullPath [] (files fs)),
              calls := calls fs @
                [ReadFile fileFullPath, Truncate fileFullPath,
                 WriteFile fileFullPath (projr (replaceStringByMapParts fileContent substitutions))]\<rparr>)"
  using assms
  by (simp add: replaceFileContents_def existsSync_def fsp_readFile_def fsp_truncate_def
        fsp_writeFile_def replaceStringByMapParts_total)

lemma replaceFileContents_total:
  "\<exists>fs'. replaceFileContents fileFullPath substitutions fs = Inr fs'"
proof (cases "map_of (files fs) fileFullPath")
  case None
  then show ?thesis
    by (simp add: replaceFileContents_missing existsSync_def)
next
  case (Some fileContent)
  then show ?thesis
    by (simp add: replaceFileContents_existing)
qed

lemma replaceFileName_existing:
  assumes "map_of (files fs) fromFullPath = Some fileContent"
    and "\<not> (targetFullPath \<noteq> [] \<and> last targetFullPath = sep)"
  shows "replaceFileName fromFullPath targetFullPath fs =
     Inr (fs\<lparr>files := (if fromFullPath = targetFullPath then files fs
                         else AList.update targetFullPath fileContent
                                (AList.delete fromFullPath (files fs))),
              calls := calls fs @ [Rename fromFullPath targetFullPath]\<rparr>)"
  using assms by (auto simp add: replaceFileName_def existsSync_def fsp_rename_def)

lemma updateEntry_missing:
  assumes "\<not> existsSync (getFileFullPath cwd fileRelativePath) fs"
  shows "updateEntry cwd replacementMap (fileRelativePath, flags) fs = Inr fs"
proof -
  obtain targetFullPath where
    "calculateTargetFileFullPath (getFileFullPath cwd fileRelativePath) (filename replacementMap)
     = Inr targetFullPath"
    using calculateTargetFileFullPath_total by blast
  then show ?thesis
    using assms
    by (simp add: updateEntry_def Let_def replaceFileName_missing replaceFileContents_missing)
qed

lemma updateEntry_srcMain_missing:
  assumes "\<not> existsSync (getFileFullPath cwd key) fs"
    and "calculateTargetFileFullPath_srcMain cwd key replacementMap = Inr targetFullPath"
  shows "updateEntry_srcMain cwd replacementMap (key, flags) fs =
     (if Contents \<in> set flags
      then replaceFileContents_srcMain targetFullPath replacementMap fs else Inr fs)"
  using assms by (simp add: updateEntry_srcMain_def Let_def replaceFileName_missing)

lemma updateEntry_rewrites_first:
  assumes "Filename \<in> set flags" and "Contents \<in> set flags"
    and "map_of (files fs) (getFileFullPath cwd fileRelativePath) = Some fileContent"
    and "extname (basename (getFileFullPath cwd fileRelativePath)) \<noteq> []"
  shows "\<exists>updatedFileContent targetFullPath fs'.
      replaceStringByMapParts fileContent (contents replacementMap) = Inr updatedFileContent
    \<and> calculateTargetFileFullPath (getFileFullPath cwd fileRelativePath) (filename replacementMap)
        = Inr targetFullPath
    \<and> updateEntry cwd replacementMap (fileRelativePath, flags) fs = Inr fs'
    \<and> calls fs' = calls fs @
          [ReadFile (getFileFullPath cwd fileRelativePath),
           Truncate (getFileFullPath cwd fileRelativePath),
           WriteFile (getFileFullPath cwd fileRelativePath) updatedFileContent,
           Rename (getFileFullPath cwd fileRelativePath) targetFullPath]
    \<and> map_of (files fs') targetFullPath = Some updatedFileContent
    \<and> (targetFullPath \<noteq> getFileFullPath cwd fileRelativePath \<longrightarrow>
          map_of (files fs') (getFileFullPath cwd fileRelativePath) = None)"
proof -
  define fromFileFullPath where "fromFileFullPath = getFileFullPath cwd fileRelativePath"
  define updated where
    "updated = projr (replaceStringByMapParts fileContent (contents replacementMap))"
  obtain targetFullPath where target:
    "calculateTargetFileFullPath fromFileFullPath (filename replacementMap) = Inr targetFullPath"
    using calculateTargetFileFullPath_total by blast
  have nodir: "\<not> (targetFullPath \<noteq> [] \<and> last targetFullPath = sep)"
    using target_is_no_directory [OF _ target] assms(4) by (simp add: fromFileFullPath_def)
  define fs1 where
    "fs1 = fs\<lparr>files := AList.update fromFileFullPath updated
                           (AList.update fromFileFullPath [] (files fs)),
                calls := calls fs @ [ReadFile fromFileFullPath, Truncate fromFileFullPath,
                                     WriteFile fromFileFullPath updated]\<rparr>"
  have rewritten: "replaceFileContents fromFileFullPath (contents replacementMap) fs = Inr fs1"
    using assms(3) replaceFileContents_existing
    by (simp add: fromFileFullPath_def updated_def fs1_def)
  have still: "map_of (files fs1) fromFileFullPath = Some updated"
    by (simp add: fs1_def update_conv')
  define fs2 where
    "fs2 = fs1\<lparr>files := (if fromFileFullPath = targetFullPath then files fs1
                          else AList.update targetFullPath updated
                                 (AList.delete fromFileFullPath (files fs1))),
                 calls := calls fs1 @ [Rename fromFileFullPath targetFullPath]\<rparr>"
  have renamed: "replaceFileName fromFileFullPath targetFullPath fs1 = Inr fs2"
    using replaceFileName_existing [OF still nodir] by (simp add: fs2_def)
  have entry: "updateEntry cwd replacementMap (fileRelativePath, flags) fs = Inr fs2"
    using assms(1,2) rewritten target renamed
    by (simp add: updateEntry_def Let_def fromFileFullPath_def [symmetric])
  have "replaceStringByMapParts fileContent (contents replacementMap) = Inr updated"
    by (simp add: updated_def replaceStringByMapParts_total)
  moreover have "calls fs2 = calls fs @
          [ReadFile fromFileFullPath, Truncate fromFileFullPath,
           WriteFile fromFileFullPath updated, Rename fromFileFullPath targetFullPath]"
    by (simp add: fs2_def fs1_def)
  moreover have "map_of (files fs2) targetFullPath = Some updated"
    using still by (auto simp add: fs2_def update_conv')
  moreover have "targetFullPath \<noteq> fromFileFullPath \<longrightarrow> map_of (files fs2) fromFileFullPath = None"
    by (auto simp add: fs2_def update_conv' delete_conv')
  ultimately show ?thesis
    using target entry unfolding fromFileFullPath_def by blast
qed

lemma updateEntry_srcMain_renames_first:
  assumes "Filename \<in> set flags" and "Contents \<in> set flags"
    and "map_of (files fs) (getFileFullPath cwd key) = Some fileContent"
    and "extname (basename (getFileFullPath cwd key)) \<noteq> []"
  shows "\<exists>updatedFileContent targetFullPath fs'.
      replaceStringByMapParts_srcMain fileContent replacementMap = Inr updatedFileContent
    \<and> calculateTargetFileFullPath_srcMain cwd key replacementMap = Inr targetFullPath
    \<and> updateEntry_srcMain cwd replacementMap (key, flags) fs = Inr fs'
    \<and> calls fs' = calls fs @
          [Rename (getFileFullPath cwd key) targetFullPath,
           ReadFile targetFullPath, Truncate targetFullPath,
           WriteFile targetFullPath updatedFileContent]
    \<and> map_of (files fs') targetFullPath = Some updatedFileContent
    \<and> (targetFullPath \<noteq> getFileFullPath cwd key \<longrightarrow>
          map_of (files fs') (getFileFullPath cwd key) = None)"
proof -
  define fromFullPath where "fromFullPath = getFileFullPath cwd key"
  define updated where "updated = projr (replaceStringByMapParts fileContent replacementMap)"
  obtain targetFullPath where target:
    "calculateTargetFileFullPath fromFullPath replacementMap = Inr targetFullPath"
    using calculateTargetFileFullPath_total by blast
  have nodir: "\<not> (targetFullPath \<noteq> [] \<and> last targetFullPath = sep)"
    using target_is_no_directory [OF _ target] assms(4) by (simp add: fromFullPath_def)
  define fs1 where
    "fs1 = fs\<lparr>files := (if fromFullPath = targetFullPath then files fs
                         else AList.update targetFullPath fileContent
                                (AList.delete fromFullPath (files fs))),
                calls := calls fs @ [Rename fromFullPath targetFullPath]\<rparr>"
  have renamed: "replaceFileName fromFullPath targetFullPath fs = Inr fs1"
    using replaceFileName_existing [OF _ nodir] assms(3) by (simp add: fs1_def fromFullPath_def)
  have there: "map_of (files fs1) targetFullPath = Some fileContent"
    using assms(3) by (auto simp add: fs1_def fromFullPath_def update_conv')
  define fs2 where
    "fs2 = fs1\<lparr>files := AList.update targetFullPath updated
                     (AList.update targetFullPath [] (files fs1)),
              calls := calls fs1 @
                [ReadFile targetFullPath, Truncate targetFullPath,
                 WriteFile targetFullPath updated]\<rparr>"
  have rewritten: "replaceFileContents_srcMain targetFullPath replacementMap fs1 = Inr fs2"
    using replaceFileContents_existing [OF there]
    by (simp add: replaceFileContents_srcMain_same updated_def fs2_def)
  have entry: "updateEntry_srcMain cwd replacementMap (key, flags) fs = Inr fs2"
    using assms(1,2) target renamed rewritten
    by (simp add: updateEntry_srcMain_def Let_def calculateTargetFileFullPath_srcMain_same
          fromFullPath_def [symmetric])
  have "replaceStringByMapParts_srcMain fileContent replacementMap = Inr updated"
    by (simp add: updated_def replaceStringByMapParts_srcMain_same replaceStringByMapParts_total)
  moreover have "calculateTargetFileFullPath_srcMain cwd key replacementMap = Inr targetFullPath"
    using target by (simp add: calculateTargetFileFullPath_srcMain_same fromFullPath_def)
  moreover have "calls fs2 = calls fs @
          [Rename fromFullPath targetFullPath,
           ReadFile targetFullPath, Truncate targetFullPath, WriteFile targetFullPath updated]"
    by (simp add: fs2_def fs1_def)
  moreover have "map_of (files fs2) targetFullPath = Some updated"
    by (simp add: fs2_def update_conv')
  moreover have "targetFullPath \<noteq> fromFullPath \<longrightarrow> map_of (files fs2) fromFullPath = None"
    by (auto simp add: fs2_def fs1_def update_conv' delete_conv')
  ultimately show ?thesis
    using entry unfolding fromFullPath_def by blast
qed


text \<open>
  Claim C7, as amended. When the path of a manifest entry does not exist,
  \<^verbatim>\<open>replaceFileName\<close> and \<^verbatim>\<open>replaceFileContents\<close> called on that path return without an
  exception and leave the file system as it is, with no call made on it. In the
  latest revision that is the whole loop body for the entry, whatever its flags, and
  the loop goes on with the next entry. In \<^verbatim>\<open>src/main.js\<close> the loop body gives the
  rewrite the target path instead: it raises no exception either and the loop goes
  on, and it leaves the file system as it is when the entry has no contents flag
  or the target path does not exist either.
\<close>

theorem C7_missing_file_is_skipped:
  assumes "\<not> existsSync (getFileFullPath cwd fileRelativePath) fs"
  shows "replaceFileName (getFileFullPath cwd fileRelativePath) targetFullPath fs = Inr fs
    \<and> replaceFileContents (getFileFullPath cwd fileRelativePath) substitutions fs = Inr fs
    \<and> replaceFileContents_srcMain (getFileFullPath cwd fileRelativePath) substitutions fs = Inr fs
    \<and> updateEntry cwd replacementMap (fileRelativePath, flags) fs = Inr fs
    \<and> updateFiles cwd replacementMap ((fileRelativePath, flags) # manifest) fs
        = updateFiles cwd replacementMap manifest fs
    \<and> (\<exists>target fs'.
          calculateTargetFileFullPath_srcMain cwd fileRelativePath substitutions = Inr target
        \<and> updateEntry_srcMain cwd substitutions (fileRelativePath, flags) fs = Inr fs'
        \<and> updateFiles_srcMain cwd substitutions ((fileRelativePath, flags) # manifest) fs
            = updateFiles_srcMain cwd substitutions manifest fs'
        \<and> (Contents \<notin> set flags \<or> \<not> existsSync target fs \<longrightarrow> fs' = fs))"
proof -
  obtain target where target:
    "calculateTargetFileFullPath_srcMain cwd fileRelativePath substitutions = Inr target"
    using calculateTargetFileFullPath_total
    by (auto simp add: calculateTargetFileFullPath_srcMain_same)
  obtain fs' where rewritten: "replaceFileContents target substitutions fs = Inr fs'"
    using replaceFileContents_total by blast
  have entry: "updateEntry_srcMain cwd substitutions (fileRelativePath, flags) fs
               = (if Contents \<in> set flags then Inr fs' else Inr fs)"
    using updateEntry_srcMain_missing [OF assms target] rewritten
    by (simp add: replaceFileContents_srcMain_same)
  have same: "\<not> existsSync target fs \<longrightarrow> fs' = fs"
    using rewritten by (auto simp add: replaceFileContents_missing)
  have older: "\<exists>target fs'.
          calculateTargetFileFullPath_srcMain cwd fileRelativePath substitutions = Inr target
        \<and> updateEntry_srcMain cwd substitutions (fileRelativePath, flags) fs = Inr fs'
        \<and> updateFiles_srcMain cwd substitutions ((fileRelativePath, flags) # manifest) fs
            = updateFiles_srcMain cwd substitutions manifest fs'
        \<and> (Contents \<notin> set flags \<or> \<not> existsSync target fs \<longrightarrow> fs' = fs)"
  proof (cases "Contents \<in> set flags")
    case True
    then show ?thesis
      using target entry same by (intro exI [of _ target] exI [of _ fs']) simp
  next
    case False
    then show ?thesis
      using target entry by (intro exI [of _ target] exI [of _ fs]) simp
  qed
  show ?thesis
    using assms older
    by (simp add: replaceFileName_missing replaceFileContents_missing updateEntry_missing
          replaceFileContents_srcMain_same)
qed

theorem C7_missing_file_is_skipped_witness:
  "\<not> existsSync (getFileFullPath ''/repo'' ''src/custom-element.ts'')
        \<lparr>files = [(''/repo/test/test.ts'', ''custom-element'')], calls = []\<rparr>
   \<and> \<not> existsSync ''/repo/src/foo-bar.ts''
        \<lparr>files = [(''/repo/test/test.ts'', ''custom-element'')], calls = []\<rparr>
   \<and> updateEntry ''/repo'' \<lparr>filename = [(''custom-element'', ''foo-bar-element'')],
                             contents = [(''custom-element'', ''foo-bar'')]\<rparr>
         (''src/custom-element.ts'', [Filename, Contents])
         \<lparr>files = [(''/repo/test/test.ts'', ''custom-element'')], calls = []\<rparr>
       = Inr \<lparr>files = [(''/repo/test/test.ts'', ''custom-element'')], calls = []\<rparr>
   \<and> updateEntry_srcMain ''/repo'' [(''custom-element'', ''foo-bar'')]
         (''src/custom-element.ts'', [Filename, Contents])
         \<lparr>files = [(''/repo/test/test.ts'', ''custom-element'')], calls = []\<rparr>
       = Inr \<lparr>files = [(''/repo/test/test.ts'', ''custom-element'')], calls = []\<rparr>"
proof -
  have h: "\<not> existsSync (getFileFullPath ''/repo'' ''src/custom-element.ts'')
        \<lparr>files = [(''/repo/test/test.ts'', ''custom-element'')], calls = []\<rparr>"
    by (simp add: existsSync_def getFileFullPath_def normalize_def Let_def)
  have n: "\<not> existsSync ''/repo/src/foo-bar.ts''
        \<lparr>files = [(''/repo/test/test.ts'', ''custom-element'')], calls = []\<rparr>"
    by (simp add: existsSync_def)
  have t: "calculateTargetFileFullPath_srcMain ''/repo'' ''src/custom-element.ts''
             [(''custom-element'', ''foo-bar'')] = Inr ''/repo/src/foo-bar.ts''"
    by (simp add: calculateTargetFileFullPath_srcMain_def Let_def normalize_def dirname_def
          basename_def extname_def sliceOff_def replaceStringByMapParts_srcMain_same
          replaceStringByMapParts_total replace_def)
  from C7_missing_file_is_skipped [OF h,
      where replacementMap = "\<lparr>filename = [(''custom-element'', ''foo-bar-element'')],
                                contents = [(''custom-element'', ''foo-bar'')]\<rparr>"
        and flags = "[Filename, Contents]" and substitutions = "[(''custom-element'', ''foo-bar'')]"]
  show ?thesis
    using h n t by auto
qed

text \<open>
  The claim as written fails on \<^verbatim>\<open>src/main.js\<close>: with the manifest path missing and
  the target path present (as after an earlier run that chose \<^verbatim>\<open>FooBar\<close>), the loop
  body rewrites the file at the target path.
\<close>

theorem C7_counterexample:
  "\<not> existsSync (getFileFullPath ''/repo'' ''src/custom-element.ts'')
        \<lparr>files = [(''/repo/src/foo-bar.ts'', ''CUSTOM-ELEMENT'')], calls = []\<rparr>
   \<and> updateEntry_srcMain ''/repo''
         [(''custom-elements'', ''foo-bar''), (''custom-element'', ''foo-bar''),
          (''CUSTOM-ELEMENT'', ''FOO-BAR''), (''CustomElementElement'', ''FooBarElement'')]
         (''src/custom-element.ts'', [Filename, Contents])
         \<lparr>files = [(''/repo/src/foo-bar.ts'', ''CUSTOM-ELEMENT'')], calls = []\<rparr>
       = Inr \<lparr>files = [(''/repo/src/foo-bar.ts'', ''FOO-BAR'')],
              calls = [ReadFile ''/repo/src/foo-bar.ts'', Truncate ''/repo/src/foo-bar.ts'',
                       WriteFile ''/repo/src/foo-bar.ts'' ''FOO-BAR'']\<rparr>"
  by (simp add: existsSync_def getFileFullPath_def normalize_def Let_def
        updateEntry_srcMain_def calculateTargetFileFullPath_srcMain_def dirname_def
        basename_def extname_def sliceOff_def replaceStringByMapParts_srcMain_same
        replaceStringByMapParts_total replace_def replaceFileName_def
        replaceFileContents_srcMain_def fsp_readFile_def fsp_truncate_def fsp_writeFile_def)


subsection \<open>The order of rewriting and renaming\<close>

text \<open>
  Claim C2, as amended. Take a manifest entry with both flags whose file exists and
  has an extension. The latest revision reads the file at its path before the
  rename, truncates it and writes the rewritten contents back there, and only then
  renames it. The revision \<^verbatim>\<open>src/main.js\<close> renames the file first and then reads,
  truncates and writes it at the new path. In both the calls on the file system are
  these four in the order given, and afterwards the rewritten contents are at the
  new path and the old path, if it differs, is gone.
\<close>

theorem C2_order_of_rewrite_and_rename:
  assumes "Filename \<in> set flags" and "Contents \<in> set flags"
    and "map_of (files fs) (getFileFullPath cwd fileRelativePath) = Some fileContent"
    and "extname (basename (getFileFullPath cwd fileRelativePath)) \<noteq> []"
  shows "(\<exists>updatedFileContent targetFullPath fs'.
      replaceStringByMapParts fileContent (contents replacementMap) = Inr updatedFileContent
    \<and> calculateTargetFileFullPath (getFileFullPath cwd fileRelativePath) (filename replacementMap)
        = Inr targetFullPath
    \<and> updateEntry cwd replacementMap (fileRelativePath, flags) fs = Inr fs'
    \<and> calls fs' = calls fs @
          [ReadFile (getFileFullPath cwd fileRelativePath),
           Truncate (getFileFullPath cwd fileRelativePath),
           WriteFile (getFileFullPath cwd fileRelativePath) updatedFileContent,
           Rename (getFileFullPath cwd fileRelativePath) targetFullPath]
    \<and> map_of (files fs') targetFullPath = Some updatedFileContent
    \<and> (targetFullPath \<noteq> getFileFullPath cwd fileRelativePath \<longrightarrow>
          map_of (files fs') (getFileFullPath cwd fileRelativePath) = None))
   \<and> (\<exists>updatedFileContent targetFullPath fs'.
      replaceStringByMapParts_srcMain fileContent substitutions = Inr updatedFileContent
    \<and> calculateTargetFileFullPath_srcMain cwd fileRelativePath substitutions = Inr targetFullPath
    \<and> updateEntry_srcMain cwd substitutions (fileRelativePath, flags) fs = Inr fs'
    \<and> calls fs' = calls fs @
          [Rename (getFileFullPath cwd fileRelativePath) targetFullPath,
           ReadFile targetFullPath, Truncate targetFullPath,
           WriteFile targetFullPath updatedFileContent]
    \<and> map_of (files fs') targetFullPath = Some updatedFileContent
    \<and> (targetFullPath \<noteq> getFileFullPath cwd fileRelativePath \<longrightarrow>
          map_of (files fs') (getFileFullPath cwd fileRelativePath) = None))"
  using updateEntry_rewrites_first [OF assms] updateEntry_srcMain_renames_first [OF assms]
  by (intro conjI)

theorem C2_order_of_rewrite_and_rename_witness:
  "Filename \<in> set [Filename, Contents] \<and> Contents \<in> set [Filename, Contents]
   \<and> map_of (files \<lparr>files = [(''/repo/src/custom-element.ts'', ''class CustomElementElement {}'')],
                     calls = []\<rparr>)
        (getFileFullPath ''/repo'' ''src/custom-element.ts'')
      = Some ''class CustomElementElement {}''
   \<and> extname (basename (getFileFullPath ''/repo'' ''src/custom-element.ts'')) = ''.ts''
   \<and> (\<exists>fs'. updateEntry ''/repo''
           \<lparr>filename = [(''custom-element'', ''foo-bar-element'')],
            contents = [(''CustomElementElement'', ''FooBarElement'')]\<rparr>
           (''src/custom-element.ts'', [Filename, Contents])
           \<lparr>files = [(''/repo/src/custom-element.ts'', ''class CustomElementElement {}'')],
            calls = []\<rparr> = Inr fs'
        \<and> calls fs' =
            [ReadFile ''/repo/src/custom-element.ts'',
             Truncate ''/repo/src/custom-element.ts'',
             WriteFile ''/repo/src/custom-element.ts'' ''class FooBarElement {}'',
             Rename ''/repo/src/custom-element.ts'' ''/repo/src/foo-bar-element.ts'']
        \<and> map_of (files fs') ''/repo/src/foo-bar-element.ts'' = Some ''class FooBarElement {}''
        \<and> map_of (files fs') ''/repo/src/custom-element.ts'' = None)
   \<and> (\<exists>fs'. updateEntry_srcMain ''/repo''
           [(''custom-element'', ''foo-bar''), (''CustomElementElement'', ''FooBarElement'')]
           (''src/custom-element.ts'', [Filename, Contents])
           \<lparr>files = [(''/repo/src/custom-element.ts'', ''class CustomElementElement {}'')],
            calls = []\<rparr> = Inr fs'
        \<and> calls fs' =
            [Rename ''/repo/src/custom-element.ts'' ''/repo/src/foo-bar.ts'',
             ReadFile ''/repo/src/foo-bar.ts'',
             Truncate ''/repo/src/foo-bar.ts'',
             WriteFile ''/repo/src/foo-bar.ts'' ''class FooBarElement {}'']
        \<and> map_of (files fs') ''/repo/src/foo-bar.ts'' = Some ''class FooBarElement {}''
        \<and> map_of (files fs') ''/repo/src/custom-element.ts'' = None)"
proof -
  have p: "getFileFullPath ''/repo'' ''src/custom-element.ts'' = ''/repo/src/custom-element.ts''"
    by (simp add: getFileFullPath_def normalize_def Let_def)
  have h1: "Filename \<in> set [Filename, Contents]" and h2: "Contents \<in> set [Filename, Contents]"
    by simp_all
  have h3: "map_of (files \<lparr>files = [(''/repo/src/custom-element.ts'', ''class CustomElementElement {}'')],
                     calls = []\<rparr>)
        (getFileFullPath ''/repo'' ''src/custom-element.ts'')
      = Some ''class CustomElementElement {}''"
    by (simp add: p)
  have e: "extname (basename (getFileFullPath ''/repo'' ''src/custom-element.ts'')) = ''.ts''"
    by (simp add: p extname_def basename_def Let_def)
  then have h4: "extname (basename (getFileFullPath ''/repo'' ''src/custom-element.ts'')) \<noteq> []"
    by simp
  have c: "replaceStringByMapParts ''class CustomElementElement {}''
             [(''CustomElementElement'', ''FooBarElement'')] = Inr ''class FooBarElement {}''"
    by (simp add: replaceStringByMapParts_total replace_def)
  have c': "replaceStringByMapParts_srcMain ''class CustomElementElement {}''
             [(''custom-element'', ''foo-bar''), (''CustomElementElement'', ''FooBarElement'')]
            = Inr ''class FooBarElement {}''"
    by (simp add: replaceStringByMapParts_srcMain_same replaceStringByMapParts_total replace_def)
  have t: "calculateTargetFileFullPath ''/repo/src/custom-element.ts''
             [(''custom-element'', ''foo-bar-element'')] = Inr ''/repo/src/foo-bar-element.ts''"
    by (simp add: calculateTargetFileFullPath_def Let_def dirname_def basename_def extname_def
          sliceOff_def replaceStringByMapParts_total replace_def)
  have t': "calculateTargetFileFullPath_srcMain ''/repo'' ''src/custom-element.ts''
             [(''custom-element'', ''foo-bar''), (''CustomElementElement'', ''FooBarElement'')]
            = Inr ''/repo/src/foo-bar.ts''"
    unfolding calculateTargetFileFullPath_srcMain_same p
    by (simp add: calculateTargetFileFullPath_def Let_def dirname_def basename_def extname_def
          sliceOff_def replaceStringByMapParts_total replace_def)
  note both = C2_order_of_rewrite_and_rename [OF h1 h2 h3 h4,
      where replacementMap = "\<lparr>filename = [(''custom-element'', ''foo-bar-element'')],
                                contents = [(''CustomElementElement'', ''FooBarElement'')]\<rparr>"
        and substitutions = "[(''custom-element'', ''foo-bar''),
                              (''CustomElementElement'', ''FooBarElement'')]"]
  have latest: "\<exists>fs'. updateEntry ''/repo''
           \<lparr>filename = [(''custom-element'', ''foo-bar-element'')],
            contents = [(''CustomElementElement'', ''FooBarElement'')]\<rparr>
           (''src/custom-element.ts'', [Filename, Contents])
           \<lparr>files = [(''/repo/src/custom-element.ts'', ''class CustomElementElement {}'')],
            calls = []\<rparr> = Inr fs'
        \<and> calls fs' =
            [ReadFile ''/repo/src/custom-element.ts'',
             Truncate ''/repo/src/custom-element.ts'',
             WriteFile ''/repo/src/custom-element.ts'' ''class FooBarElement {}'',
             Rename ''/repo/src/custom-element.ts'' ''/repo/src/foo-bar-element.ts'']
        \<and> map_of (files fs') ''/repo/src/foo-bar-element.ts'' = Some ''class FooBarElement {}''
        \<and> map_of (files fs') ''/repo/src/custom-element.ts'' = None"
    using both [THEN conjunct1]
    by (auto simp add: p c t simp del: replaceStringByMapParts.simps)
  have older: "\<exists>fs'. updateEntry_srcMain ''/repo''
           [(''custom-element'', ''foo-bar''), (''CustomElementElement'', ''FooBarElement'')]
           (''src/custom-element.ts'', [Filename, Contents])
           \<lparr>files = [(''/repo/src/custom-element.ts'', ''class CustomElementElement {}'')],
            calls = []\<rparr> = Inr fs'
        \<and> calls fs' =
            [Rename ''/repo/src/custom-element.ts'' ''/repo/src/foo-bar.ts'',
             ReadFile ''/repo/src/foo-bar.ts'',
             Truncate ''/repo/src/foo-bar.ts'',
             WriteFile ''/repo/src/foo-bar.ts'' ''class FooBarElement {}'']
        \<and> map_of (files fs') ''/repo/src/foo-bar.ts'' = Some ''class FooBarElement {}''
        \<and> map_of (files fs') ''/repo/src/custom-element.ts'' = None"
    using both [THEN conjunct2]
    by (auto simp add: p c' t' simp del: replaceStringByMapParts_srcMain.simps)
  show ?thesis
    using h1 h2 h3 e latest older by (intro conjI)
qed

text \<open>
  The claim as written fails on \<^verbatim>\<open>src/main.js\<close>: with the replacement map it builds for
  the class name \<^verbatim>\<open>FooBar\<close>, the first call of the loop body for
  \<^verbatim>\<open>src/custom-element.ts\<close> is the rename, and the contents are read from and written to
  the new path.
\<close>

theorem C2_counterexample:
  "updateEntry_srcMain ''/repo''
     [(''custom-elements'', ''foo-bar''), (''custom-element'', ''foo-bar''),
      (''CUSTOM-ELEMENT'', ''FOO-BAR''), (''CustomElementElement'', ''FooBarElement'')]
     (''src/custom-element.ts'', [Filename, Contents])
     \<lparr>files = [(''/repo/src/custom-element.ts'', ''class CustomElementElement {}'')], calls = []\<rparr>
   = Inr \<lparr>files = [(''/repo/src/foo-bar.ts'', ''class FooBarElement {}'')],
          calls = [Rename ''/repo/src/custom-element.ts'' ''/repo/src/foo-bar.ts'',
                   ReadFile ''/repo/src/foo-bar.ts'', Truncate ''/repo/src/foo-bar.ts'',
                   WriteFile ''/repo/src/foo-bar.ts'' ''class FooBarElement {}'']\<rparr>"
proof -
  have p: "getFileFullPath ''/repo'' ''src/custom-element.ts'' = ''/repo/src/custom-element.ts''"
    by (simp add: getFileFullPath_def normalize_def Let_def)
  have t: "calculateTargetFileFullPath_srcMain ''/repo'' ''src/custom-element.ts''
             [(''custom-elements'', ''foo-bar''), (''custom-element'', ''foo-bar''),
              (''CUSTOM-ELEMENT'', ''FOO-BAR''), (''CustomElementElement'', ''FooBarElement'')]
            = Inr ''/repo/src/foo-bar.ts''"
    unfolding calculateTargetFileFullPath_srcMain_same p
    by (simp add: calculateTargetFileFullPath_def Let_def dirname_def basename_def extname_def
          sliceOff_def replaceStringByMapParts_total replace_def)
  have c: "replaceStringByMapParts ''class CustomElementElement {}''
             [(''custom-elements'', ''foo-bar''), (''custom-element'', ''foo-bar''),
              (''CUSTOM-ELEMENT'', ''FOO-BAR''), (''CustomElementElement'', ''FooBarElement'')]
            = Inr ''class FooBarElement {}''"
    by (simp add: replaceStringByMapParts_total replace_def)
  show ?thesis
    by (simp add: updateEntry_srcMain_def Let_def t p c replaceFileName_def existsSync_def fsp_rename_def
          replaceFileContents_srcMain_same replaceFileContents_def fsp_readFile_def
          fsp_truncate_def fsp_writeFile_def del: replaceStringByMapParts.simps)
qed

end
